theory Spec2Isabelle
  imports Main "HOL-Library.Word"
begin

unbundle bit_operations_syntax

section \<open>Target platform and memory\<close>

text \<open>
  The message codec of \<^verbatim>\<open>keyguard_messages.cpp\<close> works on raw pointers into a caller
  supplied byte range and on heap arrays owned by \<^verbatim>\<open>std::unique_ptr\<close>.

  The code copies \<^verbatim>\<open>sizeof(target->length)\<close> bytes for a length field (a \<^verbatim>\<open>size_t\<close>)
  while it accounts \<^verbatim>\<open>sizeof(uint32_t)\<close> for it. The two agree on a target whose
  \<^verbatim>\<open>size_t\<close> and pointers are 32 bits wide, which is the platform modelled here:
  pointers and \<^verbatim>\<open>size_t\<close> are \<open>32 word\<close>, pointer arithmetic wraps around modulo
  \<open>2 ^ 32\<close>, pointer comparison is unsigned, and \<^verbatim>\<open>memcpy\<close> of an integer stores it
  least significant byte first. On a target with a 64-bit \<^verbatim>\<open>size_t\<close> the code reads and
  writes eight bytes for a length field: what is proved below about a decode that
  succeeds, and about a round trip, is proved for the 32-bit target only.
\<close>

type_synonym byte = "8 word"
type_synonym addr = "32 word"
type_synonym uint32_t = "32 word"
type_synonym size_t = "32 word"

text \<open>The input memory: a byte at every address. What the code reads is traced apart.\<close>

type_synonym memory = "addr \<Rightarrow> byte"

text \<open>\<^verbatim>\<open>memcpy(p, &w, sizeof(uint32_t))\<close>: the four bytes of a 32-bit value.\<close>

definition store_u32 :: "uint32_t \<Rightarrow> byte list" where
  "store_u32 w = [ucast w, ucast (drop_bit 8 w), ucast (drop_bit 16 w), ucast (drop_bit 24 w)]"

text \<open>\<^verbatim>\<open>memcpy(&w, p, sizeof(uint32_t))\<close>: the value of four bytes.\<close>

definition load_u32 :: "byte list \<Rightarrow> uint32_t" where
  "load_u32 bs =
     (case bs of
        [b0, b1, b2, b3] \<Rightarrow>
          ucast b0 OR push_bit 8 (ucast b1) OR push_bit 16 (ucast b2) OR push_bit 24 (ucast b3)
      | _ \<Rightarrow> 0)"

text \<open>The addresses \<open>p, p + 1, ..., p + n - 1\<close> and the bytes the memory holds there.\<close>

definition addrs :: "addr \<Rightarrow> nat \<Rightarrow> addr list" where
  "addrs p n = map (\<lambda>i. p + of_nat i) [0..<n]"

definition load_bytes :: "memory \<Rightarrow> addr \<Rightarrow> nat \<Rightarrow> byte list" where
  "load_bytes m p n = map m (addrs p n)"

text \<open>A memory that holds the bytes \<open>bs\<close> from address \<open>p\<close> on, and zero elsewhere.\<close>

definition place :: "addr \<Rightarrow> byte list \<Rightarrow> memory" where
  "place p bs = (\<lambda>a. if unat (a - p) < length bs then bs ! unat (a - p) else 0)"

section \<open>Error codes\<close>

text \<open>
  \<^verbatim>\<open>keyguard_error_t\<close> is an unscoped enumeration with the enumerators
  \<^verbatim>\<open>KG_ERROR_OK = 0\<close> and \<^verbatim>\<open>KG_ERROR_INVALID = 1\<close>. \<^verbatim>\<open>Deserialize\<close> stores a
  \<^verbatim>\<open>static_cast\<close> of a 32-bit word of the input in it, and \<^verbatim>\<open>Serialize\<close> writes
  the \<^verbatim>\<open>static_cast\<close> back: the object holds the word, so the type is the word.
\<close>

type_synonym keyguard_error_t = "32 word"

definition KG_ERROR_OK :: keyguard_error_t where
  "KG_ERROR_OK = 0"

definition KG_ERROR_INVALID :: keyguard_error_t where
  "KG_ERROR_INVALID = 1"

section \<open>SizedBuffer\<close>

text \<open>
  \<^verbatim>\<open>struct { std::unique_ptr<uint8_t> buffer; size_t length; }\<close>. The pointer is either
  null (\<open>None\<close>) or owns a heap array, given by its contents. The array's size is the
  list's length; nothing in the struct ties it to the \<^verbatim>\<open>length\<close> member.
\<close>

record SizedBuffer =
  buffer :: "byte list option"
  length_sb :: size_t

text \<open>
  \<^verbatim>\<open>memset_s(&field, 0, sizeof(field))\<close> in the default constructors: a null pointer and
  length zero.
\<close>

definition zeroed_SizedBuffer :: SizedBuffer where
  "zeroed_SizedBuffer = \<lparr>buffer = None, length_sb = 0\<rparr>"

text \<open>
  Reading \<open>n\<close> bytes through \<^verbatim>\<open>buffer.get()\<close>, the source side of a \<^verbatim>\<open>memcpy\<close>.
  Copying from a null pointer or past the end of the array has no defined result
  (\<open>None\<close>); copying no byte reads nothing.
\<close>

definition block_read :: "byte list option \<Rightarrow> nat \<Rightarrow> byte list option" where
  "block_read p n =
     (if n = 0 then Some []
      else case p of
        None \<Rightarrow> None
      | Some bs \<Rightarrow> if n \<le> length bs then Some (take n bs) else None)"

text \<open>
  Modelled from the spec: \<^verbatim>\<open>memset_s\<close> is declared in \<^verbatim>\<open>google_keyguard_utils.h\<close>,
  which is not among the sources. The spec has the secret fields "overwritten with zeros
  before their storage is released": \<^verbatim>\<open>memset_s(p, c, n)\<close> sets the first \<open>n\<close> bytes
  of the array at \<open>p\<close> to \<open>c\<close>. Writing past the end of the array has no defined
  result (\<open>None\<close>).
\<close>

definition memset_s :: "byte list \<Rightarrow> byte \<Rightarrow> nat \<Rightarrow> byte list option" where
  "memset_s bs c n = (if n \<le> length bs then Some (replicate n c @ drop n bs) else None)"

text \<open>
  Every function below that gives up heap arrays returns the list of the arrays it
  deleted, each with the contents it had at the moment of deletion.

  \<^verbatim>\<open>if (f.buffer) { f.buffer.reset(); }\<close>
\<close>

definition reset_buffer :: "SizedBuffer \<Rightarrow> SizedBuffer \<times> byte list list" where
  "reset_buffer f =
     (case buffer f of
        None \<Rightarrow> (f, [])
      | Some bs \<Rightarrow> (f\<lparr>buffer := None\<rparr>, [bs]))"

text \<open>
  \<^verbatim>\<open>if (f.buffer) { memset_s(f.buffer.get(), 0, f.length); f.buffer.reset(); }\<close>
\<close>

definition wipe_and_reset :: "SizedBuffer \<Rightarrow> (SizedBuffer \<times> byte list list) option" where
  "wipe_and_reset f =
     (case buffer f of
        None \<Rightarrow> Some (f, [])
      | Some bs \<Rightarrow>
          (case memset_s bs 0 (unat (length_sb f)) of
             None \<Rightarrow> None
           | Some zs \<Rightarrow> Some (f\<lparr>buffer := None\<rparr>, [zs])))"

section \<open>Serializing and deserializing a SizedBuffer\<close>

definition serialized_buffer_size :: "SizedBuffer \<Rightarrow> size_t" where
  "serialized_buffer_size buf = 4 + length_sb buf"

text \<open>
  \<^verbatim>\<open>append_to_buffer\<close> writes through a cursor and advances it. The model returns the
  bytes written, in order; the cursor advances by their number.
\<close>

definition append_to_buffer :: "SizedBuffer \<Rightarrow> byte list option" where
  "append_to_buffer to_append =
     (case block_read (buffer to_append) (unat (length_sb to_append)) of
        None \<Rightarrow> None
      | Some bytes \<Rightarrow> Some (store_u32 (length_sb to_append) @ bytes))"

text \<open>
  \<^verbatim>\<open>read_from_buffer(&buffer, end, target)\<close> returns the error code, the cursor, the
  target, the addresses of the input it read, and the arrays it deleted
  (\<^verbatim>\<open>target->buffer.reset(new ...)\<close> deletes the array the target owned).
\<close>

definition read_from_buffer ::
  "memory \<Rightarrow> addr \<Rightarrow> addr \<Rightarrow> SizedBuffer \<Rightarrow>
     keyguard_error_t \<times> addr \<times> SizedBuffer \<times> addr list \<times> byte list list" where
  "read_from_buffer m buf end target =
     (if buf + 4 \<ge> end then (KG_ERROR_INVALID, buf, target, [], [])
      else
        let len = load_u32 (load_bytes m buf 4);
            target1 = target\<lparr>length_sb := len\<rparr>;
            buf1 = buf + 4;
            buffer_end = buf1 + len
        in
          if buffer_end > end \<or> buffer_end \<le> buf1
          then (KG_ERROR_INVALID, buf1, target1, addrs buf 4, [])
          else
            (KG_ERROR_OK, buf1 + len,
             target1\<lparr>buffer := Some (load_bytes m buf1 (unat len))\<rparr>,
             addrs buf 4 @ addrs buf1 (unat len),
             snd (reset_buffer target1)))"

section \<open>KeyguardMessage\<close>

text \<open>
  The base class holds the members \<^verbatim>\<open>error_\<close> and \<^verbatim>\<open>user_id_\<close> (a name cannot end
  with an underscore here, so the fields are \<open>error\<close> and \<open>user_id\<close>). The virtual
  hooks of a variant are passed to the base class's functions as arguments.
\<close>

record KeyguardMessage =
  error :: keyguard_error_t
  user_id :: uint32_t

definition GetSerializedSize ::
  "('a KeyguardMessage_scheme \<Rightarrow> size_t) \<Rightarrow> 'a KeyguardMessage_scheme \<Rightarrow> size_t" where
  "GetSerializedSize nonErrorSerializedSize msg =
     (if error msg = KG_ERROR_OK then 2 * 4 + nonErrorSerializedSize msg else 4)"

text \<open>
  \<^verbatim>\<open>Serialize\<close> returns a new heap array; the model returns its contents. With an
  error it is a single \<^verbatim>\<open>uint32_t\<close>. Otherwise the array has
  \<^verbatim>\<open>2*sizeof(uint32_t) + nonErrorSerializedSize()\<close> bytes, computed in \<^verbatim>\<open>size_t\<close>,
  and receives the error, the user id and what the hook writes. The result is \<open>None\<close>
  when the hook's reads have no defined result, or when the bytes written are not
  exactly the bytes allocated (the writes run past the array, or leave its end unset).
\<close>

definition Serialize ::
  "('a KeyguardMessage_scheme \<Rightarrow> size_t) \<Rightarrow> ('a KeyguardMessage_scheme \<Rightarrow> byte list option) \<Rightarrow>
     'a KeyguardMessage_scheme \<Rightarrow> byte list option" where
  "Serialize nonErrorSerializedSize nonErrorSerialize msg =
     (if error msg \<noteq> KG_ERROR_OK then Some (store_u32 (error msg))
      else
        let size = 2 * 4 + nonErrorSerializedSize msg in
          case nonErrorSerialize msg of
            None \<Rightarrow> None
          | Some body \<Rightarrow>
              if 8 + length body = unat size
              then Some (store_u32 (error msg) @ store_u32 (user_id msg) @ body)
              else None)"

text \<open>
  \<^verbatim>\<open>Deserialize(payload, end)\<close> returns the error code, the object, the addresses of
  the input it read and the arrays it deleted; \<open>None\<close> when the hook has no defined
  result. The early return on a range shorter than four bytes leaves \<^verbatim>\<open>error_\<close> as it
  was; the early return on a range that ends with the error code returns
  \<^verbatim>\<open>KG_ERROR_INVALID\<close> and leaves the \<^verbatim>\<open>KG_ERROR_OK\<close> of the input in \<^verbatim>\<open>error_\<close>.
\<close>

definition Deserialize ::
  "(memory \<Rightarrow> addr \<Rightarrow> addr \<Rightarrow> 'a KeyguardMessage_scheme \<Rightarrow>
      (keyguard_error_t \<times> 'a KeyguardMessage_scheme \<times> addr list \<times> byte list list) option) \<Rightarrow>
     memory \<Rightarrow> addr \<Rightarrow> addr \<Rightarrow> 'a KeyguardMessage_scheme \<Rightarrow>
     (keyguard_error_t \<times> 'a KeyguardMessage_scheme \<times> addr list \<times> byte list list) option" where
  "Deserialize nonErrorDeserialize m payload end msg =
     (if payload + 4 > end then Some (KG_ERROR_INVALID, msg, [], [])
      else
        let error_value = load_u32 (load_bytes m payload 4);
            msg1 = msg\<lparr>error := error_value\<rparr>;
            payload1 = payload + 4
        in
          if error msg1 = KG_ERROR_OK then
            if payload1 = end then Some (KG_ERROR_INVALID, msg1, addrs payload 4, [])
            else
              let msg2 = msg1\<lparr>user_id := load_u32 (load_bytes m payload1 4)\<rparr> in
                case nonErrorDeserialize m (payload1 + 4) end msg2 of
                  None \<Rightarrow> None
                | Some (e, msg3, rd, fr) \<Rightarrow>
                    Some (e, msg3\<lparr>error := e\<rparr>, addrs payload 4 @ addrs payload1 4 @ rd, fr)
          else Some (error msg1, msg1, addrs payload 4, []))"

text \<open>The hooks of the base class itself.\<close>

definition KeyguardMessage_nonErrorSerializedSize :: "'a KeyguardMessage_scheme \<Rightarrow> size_t" where
  "KeyguardMessage_nonErrorSerializedSize msg = 0"

definition KeyguardMessage_nonErrorSerialize :: "'a KeyguardMessage_scheme \<Rightarrow> byte list option" where
  "KeyguardMessage_nonErrorSerialize msg = Some []"

definition KeyguardMessage_nonErrorDeserialize ::
  "memory \<Rightarrow> addr \<Rightarrow> addr \<Rightarrow> 'a KeyguardMessage_scheme \<Rightarrow>
     (keyguard_error_t \<times> 'a KeyguardMessage_scheme \<times> addr list \<times> byte list list) option" where
  "KeyguardMessage_nonErrorDeserialize m payload end msg = Some (KG_ERROR_OK, msg, [], [])"

section \<open>VerifyRequest\<close>

record VerifyRequest = KeyguardMessage +
  VerifyRequest_password_handle :: SizedBuffer
  VerifyRequest_provided_password :: SizedBuffer

text \<open>
  The constructor from buffers moves each source's pointer into the field and copies its
  length. It returns the object and the two sources as it leaves them. The base class's
  default constructor has set the error to \<^verbatim>\<open>KG_ERROR_OK\<close>.
\<close>

definition VerifyRequest_ctor ::
  "uint32_t \<Rightarrow> SizedBuffer \<Rightarrow> SizedBuffer \<Rightarrow> VerifyRequest \<times> SizedBuffer \<times> SizedBuffer" where
  "VerifyRequest_ctor uid enrolled_password_handle provided_password_payload =
     (\<lparr>error = KG_ERROR_OK, user_id = uid,
       VerifyRequest_password_handle =
         \<lparr>buffer = buffer enrolled_password_handle,
          length_sb = length_sb enrolled_password_handle\<rparr>,
       VerifyRequest_provided_password =
         \<lparr>buffer = buffer provided_password_payload,
          length_sb = length_sb provided_password_payload\<rparr>\<rparr>,
      enrolled_password_handle\<lparr>buffer := None\<rparr>,
      provided_password_payload\<lparr>buffer := None\<rparr>)"

text \<open>
  The default constructor leaves \<^verbatim>\<open>user_id_\<close> unset: the value the member happens to
  hold is an argument of the model.
\<close>

definition VerifyRequest_default_ctor :: "uint32_t \<Rightarrow> VerifyRequest" where
  "VerifyRequest_default_ctor unset_user_id =
     \<lparr>error = KG_ERROR_OK, user_id = unset_user_id,
      VerifyRequest_password_handle = zeroed_SizedBuffer,
      VerifyRequest_provided_password = zeroed_SizedBuffer\<rparr>"

text \<open>The destructor returns the arrays it deleted; the members are null when it ends.\<close>

definition VerifyRequest_dtor :: "VerifyRequest \<Rightarrow> byte list list option" where
  "VerifyRequest_dtor msg =
     (case reset_buffer (VerifyRequest_password_handle msg) of
        (ph, fr1) \<Rightarrow>
          (case wipe_and_reset (VerifyRequest_provided_password msg) of
             None \<Rightarrow> None
           | Some (pp, fr2) \<Rightarrow> Some (fr1 @ fr2)))"

definition VerifyRequest_nonErrorSerializedSize :: "VerifyRequest \<Rightarrow> size_t" where
  "VerifyRequest_nonErrorSerializedSize msg =
     serialized_buffer_size (VerifyRequest_password_handle msg)
       + serialized_buffer_size (VerifyRequest_provided_password msg)"

definition VerifyRequest_nonErrorSerialize :: "VerifyRequest \<Rightarrow> byte list option" where
  "VerifyRequest_nonErrorSerialize msg =
     (case append_to_buffer (VerifyRequest_password_handle msg) of
        None \<Rightarrow> None
      | Some b1 \<Rightarrow>
          (case append_to_buffer (VerifyRequest_provided_password msg) of
             None \<Rightarrow> None
           | Some b2 \<Rightarrow> Some (b1 @ b2)))"

definition VerifyRequest_nonErrorDeserialize ::
  "memory \<Rightarrow> addr \<Rightarrow> addr \<Rightarrow> VerifyRequest \<Rightarrow>
     (keyguard_error_t \<times> VerifyRequest \<times> addr list \<times> byte list list) option" where
  "VerifyRequest_nonErrorDeserialize m payload end msg =
     (case reset_buffer (VerifyRequest_password_handle msg) of
        (ph, fr1) \<Rightarrow>
          (case wipe_and_reset (VerifyRequest_provided_password msg) of
             None \<Rightarrow> None
           | Some (pp, fr2) \<Rightarrow>
               (case read_from_buffer m payload end ph of
                  (err, payload1, ph1, rd1, fr3) \<Rightarrow>
                    if err \<noteq> KG_ERROR_OK
                    then Some (err,
                               msg\<lparr>VerifyRequest_password_handle := ph1,
                                   VerifyRequest_provided_password := pp\<rparr>,
                               rd1, fr1 @ fr2 @ fr3)
                    else
                      (case read_from_buffer m payload1 end pp of
                         (err2, payload2, pp1, rd2, fr4) \<Rightarrow>
                           Some (err2,
                                 msg\<lparr>VerifyRequest_password_handle := ph1,
                                     VerifyRequest_provided_password := pp1\<rparr>,
                                 rd1 @ rd2, fr1 @ fr2 @ fr3 @ fr4)))))"

section \<open>VerifyResponse\<close>

record VerifyResponse = KeyguardMessage +
  VerifyResponse_verification_token :: SizedBuffer

definition VerifyResponse_ctor :: "uint32_t \<Rightarrow> SizedBuffer \<Rightarrow> VerifyResponse \<times> SizedBuffer" where
  "VerifyResponse_ctor uid verification_token =
     (\<lparr>error = KG_ERROR_OK, user_id = uid,
       VerifyResponse_verification_token =
         \<lparr>buffer = buffer verification_token, length_sb = length_sb verification_token\<rparr>\<rparr>,
      verification_token\<lparr>buffer := None\<rparr>)"

definition VerifyResponse_default_ctor :: "uint32_t \<Rightarrow> VerifyResponse" where
  "VerifyResponse_default_ctor unset_user_id =
     \<lparr>error = KG_ERROR_OK, user_id = unset_user_id,
      VerifyResponse_verification_token = zeroed_SizedBuffer\<rparr>"

text \<open>
  The destructor's body resets the pointer when the length is positive; the member's own
  destructor then deletes an array the body has left.
\<close>

definition VerifyResponse_dtor :: "VerifyResponse \<Rightarrow> byte list list option" where
  "VerifyResponse_dtor msg =
     (case (if length_sb (VerifyResponse_verification_token msg) > 0
            then reset_buffer (VerifyResponse_verification_token msg)
            else (VerifyResponse_verification_token msg, [])) of
        (vt, fr1) \<Rightarrow> Some (fr1 @ snd (reset_buffer vt)))"

definition VerifyResponse_nonErrorSerializedSize :: "VerifyResponse \<Rightarrow> size_t" where
  "VerifyResponse_nonErrorSerializedSize msg =
     serialized_buffer_size (VerifyResponse_verification_token msg)"

definition VerifyResponse_nonErrorSerialize :: "VerifyResponse \<Rightarrow> byte list option" where
  "VerifyResponse_nonErrorSerialize msg =
     append_to_buffer (VerifyResponse_verification_token msg)"

definition VerifyResponse_nonErrorDeserialize ::
  "memory \<Rightarrow> addr \<Rightarrow> addr \<Rightarrow> VerifyResponse \<Rightarrow>
     (keyguard_error_t \<times> VerifyResponse \<times> addr list \<times> byte list list) option" where
  "VerifyResponse_nonErrorDeserialize m payload end msg =
     (case reset_buffer (VerifyResponse_verification_token msg) of
        (vt, fr1) \<Rightarrow>
          (case read_from_buffer m payload end vt of
             (err, payload1, vt1, rd, fr2) \<Rightarrow>
               Some (err, msg\<lparr>VerifyResponse_verification_token := vt1\<rparr>, rd, fr1 @ fr2)))"

section \<open>EnrollRequest\<close>

record EnrollRequest = KeyguardMessage +
  EnrollRequest_provided_password :: SizedBuffer

definition EnrollRequest_ctor :: "uint32_t \<Rightarrow> SizedBuffer \<Rightarrow> EnrollRequest \<times> SizedBuffer" where
  "EnrollRequest_ctor uid provided_password =
     (\<lparr>error = KG_ERROR_OK, user_id = uid,
       EnrollRequest_provided_password =
         \<lparr>buffer = buffer provided_password, length_sb = length_sb provided_password\<rparr>\<rparr>,
      provided_password\<lparr>buffer := None\<rparr>)"

definition EnrollRequest_default_ctor :: "uint32_t \<Rightarrow> EnrollRequest" where
  "EnrollRequest_default_ctor unset_user_id =
     \<lparr>error = KG_ERROR_OK, user_id = unset_user_id,
      EnrollRequest_provided_password = zeroed_SizedBuffer\<rparr>"

definition EnrollRequest_dtor :: "EnrollRequest \<Rightarrow> byte list list option" where
  "EnrollRequest_dtor msg =
     (case wipe_and_reset (EnrollRequest_provided_password msg) of
        None \<Rightarrow> None
      | Some (pp, fr) \<Rightarrow> Some fr)"

definition EnrollRequest_nonErrorSerializedSize :: "EnrollRequest \<Rightarrow> size_t" where
  "EnrollRequest_nonErrorSerializedSize msg =
     serialized_buffer_size (EnrollRequest_provided_password msg)"

definition EnrollRequest_nonErrorSerialize :: "EnrollRequest \<Rightarrow> byte list option" where
  "EnrollRequest_nonErrorSerialize msg =
     append_to_buffer (EnrollRequest_provided_password msg)"

definition EnrollRequest_nonErrorDeserialize ::
  "memory \<Rightarrow> addr \<Rightarrow> addr \<Rightarrow> EnrollRequest \<Rightarrow>
     (keyguard_error_t \<times> EnrollRequest \<times> addr list \<times> byte list list) option" where
  "EnrollRequest_nonErrorDeserialize m payload end msg =
     (case wipe_and_reset (EnrollRequest_provided_password msg) of
        None \<Rightarrow> None
      | Some (pp, fr1) \<Rightarrow>
          (case read_from_buffer m payload end pp of
             (err, payload1, pp1, rd, fr2) \<Rightarrow>
               Some (err, msg\<lparr>EnrollRequest_provided_password := pp1\<rparr>, rd, fr1 @ fr2)))"

section \<open>EnrollResponse\<close>

record EnrollResponse = KeyguardMessage +
  EnrollResponse_enrolled_password_handle :: SizedBuffer

definition EnrollResponse_ctor :: "uint32_t \<Rightarrow> SizedBuffer \<Rightarrow> EnrollResponse \<times> SizedBuffer" where
  "EnrollResponse_ctor uid enrolled_password_handle =
     (\<lparr>error = KG_ERROR_OK, user_id = uid,
       EnrollResponse_enrolled_password_handle =
         \<lparr>buffer = buffer enrolled_password_handle,
          length_sb = length_sb enrolled_password_handle\<rparr>\<rparr>,
      enrolled_password_handle\<lparr>buffer := None\<rparr>)"

definition EnrollResponse_default_ctor :: "uint32_t \<Rightarrow> EnrollResponse" where
  "EnrollResponse_default_ctor unset_user_id =
     \<lparr>error = KG_ERROR_OK, user_id = unset_user_id,
      EnrollResponse_enrolled_password_handle = zeroed_SizedBuffer\<rparr>"

definition EnrollResponse_dtor :: "EnrollResponse \<Rightarrow> byte list list option" where
  "EnrollResponse_dtor msg =
     (case reset_buffer (EnrollResponse_enrolled_password_handle msg) of
        (h, fr) \<Rightarrow> Some fr)"

definition EnrollResponse_nonErrorSerializedSize :: "EnrollResponse \<Rightarrow> size_t" where
  "EnrollResponse_nonErrorSerializedSize msg =
     serialized_buffer_size (EnrollResponse_enrolled_password_handle msg)"

definition EnrollResponse_nonErrorSerialize :: "EnrollResponse \<Rightarrow> byte list option" where
  "EnrollResponse_nonErrorSerialize msg =
     append_to_buffer (EnrollResponse_enrolled_password_handle msg)"

definition EnrollResponse_nonErrorDeserialize ::
  "memory \<Rightarrow> addr \<Rightarrow> addr \<Rightarrow> EnrollResponse \<Rightarrow>
     (keyguard_error_t \<times> EnrollResponse \<times> addr list \<times> byte list list) option" where
  "EnrollResponse_nonErrorDeserialize m payload end msg =
     (case reset_buffer (EnrollResponse_enrolled_password_handle msg) of
        (h, fr1) \<Rightarrow>
          (case read_from_buffer m payload end h of
             (err, payload1, h1, rd, fr2) \<Rightarrow>
               Some (err, msg\<lparr>EnrollResponse_enrolled_password_handle := h1\<rparr>, rd, fr1 @ fr2)))"

section \<open>Properties stated about the code\<close>

text \<open>Every address of a read trace lies in the input range \<open>[payload, end)\<close>.\<close>

definition reads_within :: "addr \<Rightarrow> addr \<Rightarrow> addr list \<Rightarrow> bool" where
  "reads_within payload end rd = list_all (\<lambda>a. payload \<le> a \<and> a < end) rd"

text \<open>
  The payload of an enrollment request in the words of the spec's table of variants,
  \<^verbatim>\<open>provided_password [, current_password_handle, current_password]\<close>: the first field,
  followed, when they are present, by the two others, each as a length-prefixed buffer.
\<close>

definition spec_EnrollRequest_payload ::
  "SizedBuffer \<Rightarrow> (SizedBuffer \<times> SizedBuffer) option \<Rightarrow> byte list option" where
  "spec_EnrollRequest_payload provided_password optional =
     (case optional of
        None \<Rightarrow> append_to_buffer provided_password
      | Some (current_password_handle, current_password) \<Rightarrow>
          (case append_to_buffer provided_password of
             None \<Rightarrow> None
           | Some b1 \<Rightarrow>
               (case append_to_buffer current_password_handle of
                  None \<Rightarrow> None
                | Some b2 \<Rightarrow>
                    (case append_to_buffer current_password of
                       None \<Rightarrow> None
                     | Some b3 \<Rightarrow> Some (b1 @ b2 @ b3)))))"

text \<open>
  What a release is expected to delete. A field released as it is gives up its array
  with the contents unchanged; a field wiped first gives up an array whose first
  \<^verbatim>\<open>length\<close> bytes are zero. \<open>length_fits\<close> says that the \<^verbatim>\<open>length\<close> member of a
  field does not exceed the size of the array the field owns.
\<close>

definition released_as_is :: "SizedBuffer \<Rightarrow> byte list list" where
  "released_as_is f = (case buffer f of None \<Rightarrow> [] | Some bs \<Rightarrow> [bs])"

definition released_wiped :: "SizedBuffer \<Rightarrow> byte list list" where
  "released_wiped f =
     (case buffer f of
        None \<Rightarrow> []
      | Some bs \<Rightarrow> [replicate (unat (length_sb f)) 0 @ drop (unat (length_sb f)) bs])"

definition length_fits :: "SizedBuffer \<Rightarrow> bool" where
  "length_fits f = (case buffer f of None \<Rightarrow> True | Some bs \<Rightarrow> unat (length_sb f) \<le> length bs)"

section \<open>Pointer arithmetic inside a range\<close>

lemma unat_add_nowrap:
  fixes p e :: addr
  assumes "unat p + n \<le> unat e"
  shows "unat (p + of_nat n) = unat p + n"
proof -
  have "unat e < 2 ^ 32"
    using unsigned_less [of e] by simp
  with assms have lt: "unat p + n < 2 ^ 32"
    by simp
  then have "unat (of_nat n :: addr) = n"
    by (simp add: unat_of_nat)
  with lt show ?thesis
    by (simp add: unat_word_ariths)
qed

lemma four_bytes_in_range:
  fixes payload e :: addr
  assumes "unat payload + 4 \<le> unat e"
  shows "\<not> payload + 4 > e"
proof -
  have "unat (payload + 4) = unat payload + 4"
    using unat_add_nowrap [of payload 4 e] assms by simp
  then show ?thesis
    using assms by (simp add: word_less_nat_alt)
qed

section \<open>Reading the input memory\<close>

lemma addrs_Suc: "addrs p (Suc n) = addrs p n @ [p + of_nat n]"
  by (simp add: addrs_def)

lemma addrs_add: "addrs p (a + b) = addrs p a @ addrs (p + of_nat a) b"
proof (induction b)
  case 0
  then show ?case by (simp add: addrs_def)
next
  case (Suc b)
  have "addrs p (a + Suc b) = addrs p (a + b) @ [p + of_nat (a + b)]"
    by (simp add: addrs_Suc)
  also have "\<dots> = addrs p a @ addrs (p + of_nat a) b @ [p + of_nat a + of_nat b]"
    by (simp add: Suc.IH add.assoc)
  finally show ?case
    by (simp add: addrs_Suc)
qed

lemma load_bytes_add:
  "load_bytes m p (a + b) = load_bytes m p a @ load_bytes m (p + of_nat a) b"
  by (simp add: load_bytes_def addrs_add)

lemma length_addrs [simp]: "length (addrs p n) = n"
  by (simp add: addrs_def)

lemma length_load_bytes [simp]: "length (load_bytes m p n) = n"
  by (simp add: load_bytes_def)

lemma length_store_u32 [simp]: "length (store_u32 w) = 4"
  by (simp add: store_u32_def)

lemma load_store_u32 [simp]: "load_u32 (store_u32 w) = w"
  unfolding load_u32_def store_u32_def
  apply simp
  apply (rule bit_word_eqI)
  subgoal for n
    apply (cases "n < 8"; cases "n < 16"; cases "n < 24")
    apply (auto simp add: bit_simps not_less)
    done
  done

section \<open>Releasing arrays\<close>

lemma reset_buffer_eq: "reset_buffer f = (f\<lparr>buffer := None\<rparr>, released_as_is f)"
  by (cases "buffer f") (simp_all add: reset_buffer_def released_as_is_def)

lemma wipe_and_reset_eq:
  "length_fits f \<Longrightarrow> wipe_and_reset f = Some (f\<lparr>buffer := None\<rparr>, released_wiped f)"
  by (cases "buffer f")
     (simp_all add: wipe_and_reset_def released_wiped_def length_fits_def memset_s_def)

lemma read_from_buffer_null_target:
  assumes "buffer t = None"
  shows "\<exists>err p t' rd. read_from_buffer m b e t = (err, p, t', rd, [])"
  using assms by (simp add: read_from_buffer_def Let_def reset_buffer_def)

lemma VerifyRequest_dtor_released:
  "length_fits (VerifyRequest_provided_password msg) \<Longrightarrow>
   VerifyRequest_dtor msg =
     Some (released_as_is (VerifyRequest_password_handle msg)
           @ released_wiped (VerifyRequest_provided_password msg))"
  by (simp add: VerifyRequest_dtor_def reset_buffer_eq wipe_and_reset_eq)

lemma VerifyRequest_nonErrorDeserialize_released:
  assumes "length_fits (VerifyRequest_provided_password msg)"
  shows "\<exists>err obj rd. VerifyRequest_nonErrorDeserialize m payload end msg =
     Some (err, obj, rd, released_as_is (VerifyRequest_password_handle msg)
           @ released_wiped (VerifyRequest_provided_password msg))"
proof -
  let ?ph = "(VerifyRequest_password_handle msg)\<lparr>buffer := None\<rparr>"
  let ?pp = "(VerifyRequest_provided_password msg)\<lparr>buffer := None\<rparr>"
  obtain err p1 ph1 rd1 where r1: "read_from_buffer m payload end ?ph = (err, p1, ph1, rd1, [])"
    using read_from_buffer_null_target [of ?ph m payload "end"] by auto
  obtain err2 p2 pp1 rd2 where r2: "read_from_buffer m p1 end ?pp = (err2, p2, pp1, rd2, [])"
    using read_from_buffer_null_target [of ?pp m p1 "end"] by auto
  show ?thesis
    using assms r1 r2
    by (simp add: VerifyRequest_nonErrorDeserialize_def reset_buffer_eq wipe_and_reset_eq)
qed

lemma EnrollRequest_dtor_released:
  "length_fits (EnrollRequest_provided_password msg) \<Longrightarrow>
   EnrollRequest_dtor msg = Some (released_wiped (EnrollRequest_provided_password msg))"
  by (simp add: EnrollRequest_dtor_def wipe_and_reset_eq)

lemma EnrollRequest_nonErrorDeserialize_released:
  assumes "length_fits (EnrollRequest_provided_password msg)"
  shows "\<exists>err obj rd. EnrollRequest_nonErrorDeserialize m payload end msg =
     Some (err, obj, rd, released_wiped (EnrollRequest_provided_password msg))"
proof -
  let ?pp = "(EnrollRequest_provided_password msg)\<lparr>buffer := None\<rparr>"
  obtain err p1 pp1 rd1 where r1: "read_from_buffer m payload end ?pp = (err, p1, pp1, rd1, [])"
    using read_from_buffer_null_target [of ?pp m payload "end"] by auto
  show ?thesis
    using assms r1
    by (simp add: EnrollRequest_nonErrorDeserialize_def wipe_and_reset_eq)
qed

lemma VerifyResponse_dtor_released:
  "VerifyResponse_dtor msg = Some (released_as_is (VerifyResponse_verification_token msg))"
  by (cases "buffer (VerifyResponse_verification_token msg)")
     (simp_all add: VerifyResponse_dtor_def reset_buffer_eq released_as_is_def)

lemma VerifyResponse_nonErrorDeserialize_released:
  "\<exists>err obj rd. VerifyResponse_nonErrorDeserialize m payload end msg =
     Some (err, obj, rd, released_as_is (VerifyResponse_verification_token msg))"
proof -
  let ?t = "(VerifyResponse_verification_token msg)\<lparr>buffer := None\<rparr>"
  obtain err p1 t1 rd1 where r1: "read_from_buffer m payload end ?t = (err, p1, t1, rd1, [])"
    using read_from_buffer_null_target [of ?t m payload "end"] by auto
  show ?thesis
    using r1 by (simp add: VerifyResponse_nonErrorDeserialize_def reset_buffer_eq)
qed

lemma EnrollResponse_dtor_released:
  "EnrollResponse_dtor msg = Some (released_as_is (EnrollResponse_enrolled_password_handle msg))"
  by (simp add: EnrollResponse_dtor_def reset_buffer_eq)

lemma EnrollResponse_nonErrorDeserialize_released:
  "\<exists>err obj rd. EnrollResponse_nonErrorDeserialize m payload end msg =
     Some (err, obj, rd, released_as_is (EnrollResponse_enrolled_password_handle msg))"
proof -
  let ?t = "(EnrollResponse_enrolled_password_handle msg)\<lparr>buffer := None\<rparr>"
  obtain err p1 t1 rd1 where r1: "read_from_buffer m payload end ?t = (err, p1, t1, rd1, [])"
    using read_from_buffer_null_target [of ?t m payload "end"] by auto
  show ?thesis
    using r1 by (simp add: EnrollResponse_nonErrorDeserialize_def reset_buffer_eq)
qed

text \<open>Decoding leaves every password field with a length that fits its array.\<close>

lemma read_from_buffer_length_fits:
  assumes "buffer t = None"
    and "read_from_buffer m b e t = (err, cur, t', rd, fr)"
  shows "length_fits t'"
  using assms
  by (auto simp add: read_from_buffer_def Let_def length_fits_def split: if_splits)

lemma EnrollRequest_nonErrorDeserialize_length_fits:
  assumes "EnrollRequest_nonErrorDeserialize m p e obj = Some (err, obj', rd, fr)"
  shows "length_fits (EnrollRequest_provided_password obj')"
proof -
  from assms obtain pp fr1
    where w: "wipe_and_reset (EnrollRequest_provided_password obj) = Some (pp, fr1)"
    by (auto simp add: EnrollRequest_nonErrorDeserialize_def split: option.splits)
  then have n: "buffer pp = None"
    by (auto simp add: wipe_and_reset_def split: option.splits)
  obtain err1 cur t1 rd1 fr2 where r: "read_from_buffer m p e pp = (err1, cur, t1, rd1, fr2)"
    by (cases "read_from_buffer m p e pp") auto
  from assms w r have "EnrollRequest_provided_password obj' = t1"
    by (auto simp add: EnrollRequest_nonErrorDeserialize_def)
  with read_from_buffer_length_fits [OF n r] show ?thesis
    by simp
qed

lemma VerifyRequest_nonErrorDeserialize_length_fits:
  assumes "VerifyRequest_nonErrorDeserialize m p e obj = Some (err, obj', rd, fr)"
  shows "length_fits (VerifyRequest_provided_password obj')"
proof -
  let ?ph = "(VerifyRequest_password_handle obj)\<lparr>buffer := None\<rparr>"
  from assms obtain pp fr1
    where w: "wipe_and_reset (VerifyRequest_provided_password obj) = Some (pp, fr1)"
    by (auto simp add: VerifyRequest_nonErrorDeserialize_def reset_buffer_eq split: option.splits)
  then have n: "buffer pp = None"
    by (auto simp add: wipe_and_reset_def split: option.splits)
  obtain err1 cur t1 rd1 fr2 where r1: "read_from_buffer m p e ?ph = (err1, cur, t1, rd1, fr2)"
    by (cases "read_from_buffer m p e ?ph") auto
  obtain err2 cur2 t2 rd2 fr3 where r2: "read_from_buffer m cur e pp = (err2, cur2, t2, rd2, fr3)"
    by (cases "read_from_buffer m cur e pp") auto
  from assms w r1 r2
  have "VerifyRequest_provided_password obj' = pp \<or> VerifyRequest_provided_password obj' = t2"
    by (auto simp add: VerifyRequest_nonErrorDeserialize_def reset_buffer_eq split: if_splits)
  with read_from_buffer_length_fits [OF n r2] n show ?thesis
    by (auto simp add: length_fits_def)
qed

section \<open>Decoding a well-formed field\<close>

lemma read_from_buffer_OK:
  assumes fits: "unat buf + 4 + unat len \<le> unat end"
    and nz: "len \<noteq> 0"
    and len: "load_u32 (load_bytes m buf 4) = len"
  shows "read_from_buffer m buf end t =
           (KG_ERROR_OK, buf + 4 + len,
            \<lparr>buffer = Some (load_bytes m (buf + 4) (unat len)), length_sb = len\<rparr>,
            addrs buf (4 + unat len), released_as_is t)"
proof -
  have pos: "0 < unat len"
    using nz by (simp add: unat_gt_0)
  have b1: "unat (buf + 4) = unat buf + 4"
    using unat_add_nowrap [of buf 4 "end"] fits by simp
  have "unat (buf + 4 + of_nat (unat len)) = unat (buf + 4) + unat len"
    using unat_add_nowrap [of "buf + 4" "unat len" "end"] fits b1 by simp
  then have b2: "unat (buf + 4 + len) = unat buf + 4 + unat len"
    using b1 by simp
  have c1: "\<not> end \<le> buf + 4"
    using fits pos b1 by (simp add: word_le_nat_alt)
  have c2: "\<not> end < buf + 4 + len"
    using fits b2 by (simp add: word_less_nat_alt)
  have c3: "\<not> buf + 4 + len \<le> buf + 4"
    using pos b1 b2 by (simp add: word_le_nat_alt)
  have rel: "snd (reset_buffer (t\<lparr>length_sb := len\<rparr>)) = released_as_is t"
    by (simp add: reset_buffer_eq released_as_is_def)
  show ?thesis
    using c1 c2 c3 len rel
    by (simp add: read_from_buffer_def Let_def addrs_add)
qed

lemma load_bytes_split:
  assumes "load_bytes m p (length xs + length ys) = xs @ ys"
  shows "load_bytes m p (length xs) = xs"
    and "load_bytes m (p + of_nat (length xs)) (length ys) = ys"
  using assms by (simp_all add: load_bytes_add)

lemma append_to_buffer_owned:
  assumes "buffer f = Some bs" and "length bs = unat (length_sb f)"
  shows "append_to_buffer f = Some (store_u32 (length_sb f) @ bs)"
proof (cases "unat (length_sb f) = 0")
  case True
  with assms show ?thesis
    by (simp add: append_to_buffer_def block_read_def)
next
  case False
  with assms show ?thesis
    by (simp add: append_to_buffer_def block_read_def)
qed

lemma read_from_buffer_decodes:
  assumes buf: "buffer f = Some bs"
    and len: "length bs = unat (length_sb f)"
    and nz: "bs \<noteq> []"
    and mem: "load_bytes m p (4 + length bs) = store_u32 (length_sb f) @ bs"
    and fits: "unat p + 4 + length bs \<le> unat end"
  shows "read_from_buffer m p end t =
           (KG_ERROR_OK, p + 4 + length_sb f, f, addrs p (4 + length bs), released_as_is t)"
proof -
  from mem have "load_bytes m p (length (store_u32 (length_sb f)) + length bs)
                   = store_u32 (length_sb f) @ bs"
    by simp
  from load_bytes_split [OF this]
  have m1: "load_bytes m p 4 = store_u32 (length_sb f)"
    and m2: "load_bytes m (p + 4) (length bs) = bs"
    by simp_all
  have l: "load_u32 (load_bytes m p 4) = length_sb f"
    by (simp add: m1)
  have nz': "length_sb f \<noteq> 0"
    using nz len by auto
  have fits': "unat p + 4 + unat (length_sb f) \<le> unat end"
    using fits len by simp
  have "\<lparr>buffer = Some bs, length_sb = length_sb f\<rparr> = f"
    using buf by simp
  then show ?thesis
    using read_from_buffer_OK [OF fits' nz' l, of t] m2 len by simp
qed

lemma Deserialize_OK_envelope:
  assumes fits: "unat payload + 8 \<le> unat end"
    and mem: "load_bytes m payload 8 = store_u32 KG_ERROR_OK @ store_u32 uid"
    and hook: "nonErrorDeserialize m (payload + 8) end (obj\<lparr>error := KG_ERROR_OK, user_id := uid\<rparr>)
                 = Some (e, obj3, rd, fr)"
  shows "Deserialize nonErrorDeserialize m payload end obj
           = Some (e, obj3\<lparr>error := e\<rparr>, addrs payload 8 @ rd, fr)"
proof -
  from mem have "load_bytes m payload (length (store_u32 KG_ERROR_OK) + length (store_u32 uid))
                   = store_u32 KG_ERROR_OK @ store_u32 uid"
    by simp
  from load_bytes_split [OF this]
  have m1: "load_bytes m payload 4 = store_u32 KG_ERROR_OK"
    and m2: "load_bytes m (payload + 4) 4 = store_u32 uid"
    by simp_all
  have c1: "\<not> payload + 4 > end"
    using four_bytes_in_range [of payload "end"] fits by simp
  have "unat (payload + 4) = unat payload + 4"
    using unat_add_nowrap [of payload 4 "end"] fits by simp
  then have c2: "payload + 4 \<noteq> end"
    using fits by auto
  have a: "addrs payload 8 = addrs payload 4 @ addrs (payload + 4) 4"
    using addrs_add [of payload 4 4] by simp
  have hook': "nonErrorDeserialize m (8 + payload) end (obj\<lparr>error := KG_ERROR_OK, user_id := uid\<rparr>)
                 = Some (e, obj3, rd, fr)"
    using hook by (simp add: add.commute)
  show ?thesis
    using c1 c2 hook'
    by (simp add: Deserialize_def Let_def m1 m2 a)
qed

lemma size_nowrap:
  fixes len e :: addr
  assumes "n + unat len \<le> unat e"
  shows "unat (of_nat n + len) = n + unat len"
  using unat_add_nowrap [of len n e] assms by (simp add: add.commute)

lemma EnrollRequest_nonErrorDeserialize_decodes:
  assumes "buffer f = Some bs"
    and "length bs = unat (length_sb f)"
    and "bs \<noteq> []"
    and "load_bytes m p (4 + length bs) = store_u32 (length_sb f) @ bs"
    and "unat p + 4 + length bs \<le> unat end"
    and "length_fits (EnrollRequest_provided_password obj)"
  shows "EnrollRequest_nonErrorDeserialize m p end obj
           = Some (KG_ERROR_OK, obj\<lparr>EnrollRequest_provided_password := f\<rparr>,
                   addrs p (4 + length bs),
                   released_wiped (EnrollRequest_provided_password obj))"
proof -
  let ?pp = "(EnrollRequest_provided_password obj)\<lparr>buffer := None\<rparr>"
  have rd: "read_from_buffer m p end ?pp =
           (KG_ERROR_OK, p + 4 + length_sb f, f, addrs p (4 + length bs), released_as_is ?pp)"
    by (rule read_from_buffer_decodes [OF assms(1) assms(2) assms(3) assms(4) assms(5)])
  have "released_as_is ?pp = []"
    by (simp add: released_as_is_def)
  with rd show ?thesis
    using assms(6) by (simp add: EnrollRequest_nonErrorDeserialize_def wipe_and_reset_eq)
qed

lemma EnrollResponse_nonErrorDeserialize_decodes:
  assumes "buffer f = Some bs"
    and "length bs = unat (length_sb f)"
    and "bs \<noteq> []"
    and "load_bytes m p (4 + length bs) = store_u32 (length_sb f) @ bs"
    and "unat p + 4 + length bs \<le> unat end"
  shows "EnrollResponse_nonErrorDeserialize m p end obj
           = Some (KG_ERROR_OK, obj\<lparr>EnrollResponse_enrolled_password_handle := f\<rparr>,
                   addrs p (4 + length bs),
                   released_as_is (EnrollResponse_enrolled_password_handle obj))"
proof -
  let ?h = "(EnrollResponse_enrolled_password_handle obj)\<lparr>buffer := None\<rparr>"
  have rd: "read_from_buffer m p end ?h =
           (KG_ERROR_OK, p + 4 + length_sb f, f, addrs p (4 + length bs), released_as_is ?h)"
    by (rule read_from_buffer_decodes [OF assms(1) assms(2) assms(3) assms(4) assms(5)])
  have "released_as_is ?h = []"
    by (simp add: released_as_is_def)
  with rd show ?thesis
    by (simp add: EnrollResponse_nonErrorDeserialize_def reset_buffer_eq)
qed

lemma VerifyResponse_nonErrorDeserialize_decodes:
  assumes "buffer f = Some bs"
    and "length bs = unat (length_sb f)"
    and "bs \<noteq> []"
    and "load_bytes m p (4 + length bs) = store_u32 (length_sb f) @ bs"
    and "unat p + 4 + length bs \<le> unat end"
  shows "VerifyResponse_nonErrorDeserialize m p end obj
           = Some (KG_ERROR_OK, obj\<lparr>VerifyResponse_verification_token := f\<rparr>,
                   addrs p (4 + length bs),
                   released_as_is (VerifyResponse_verification_token obj))"
proof -
  let ?h = "(VerifyResponse_verification_token obj)\<lparr>buffer := None\<rparr>"
  have rd: "read_from_buffer m p end ?h =
           (KG_ERROR_OK, p + 4 + length_sb f, f, addrs p (4 + length bs), released_as_is ?h)"
    by (rule read_from_buffer_decodes [OF assms(1) assms(2) assms(3) assms(4) assms(5)])
  have "released_as_is ?h = []"
    by (simp add: released_as_is_def)
  with rd show ?thesis
    by (simp add: VerifyResponse_nonErrorDeserialize_def reset_buffer_eq)
qed

lemma VerifyRequest_nonErrorDeserialize_decodes:
  assumes f1: "buffer f = Some bs" and f2: "length bs = unat (length_sb f)" and f3: "bs \<noteq> []"
    and g1: "buffer g = Some cs" and g2: "length cs = unat (length_sb g)" and g3: "cs \<noteq> []"
    and mem: "load_bytes m p (8 + length bs + length cs)
                = store_u32 (length_sb f) @ bs @ store_u32 (length_sb g) @ cs"
    and fits: "unat p + 8 + length bs + length cs \<le> unat end"
    and lf: "length_fits (VerifyRequest_provided_password obj)"
  shows "VerifyRequest_nonErrorDeserialize m p end obj
           = Some (KG_ERROR_OK,
                   obj\<lparr>VerifyRequest_password_handle := f, VerifyRequest_provided_password := g\<rparr>,
                   addrs p (8 + length bs + length cs),
                   released_as_is (VerifyRequest_password_handle obj)
                   @ released_wiped (VerifyRequest_provided_password obj))"
proof -
  let ?ph = "(VerifyRequest_password_handle obj)\<lparr>buffer := None\<rparr>"
  let ?pp = "(VerifyRequest_provided_password obj)\<lparr>buffer := None\<rparr>"
  let ?q = "p + 4 + length_sb f"
  from mem have "load_bytes m p
        (length (store_u32 (length_sb f) @ bs) + length (store_u32 (length_sb g) @ cs))
      = (store_u32 (length_sb f) @ bs) @ (store_u32 (length_sb g) @ cs)"
    by (simp add: add.assoc add.left_commute)
  from load_bytes_split [OF this]
  have m1: "load_bytes m p (4 + length bs) = store_u32 (length_sb f) @ bs"
    and m2': "load_bytes m (p + of_nat (4 + length bs)) (4 + length cs)
                = store_u32 (length_sb g) @ cs"
    by simp_all
  have q: "p + of_nat (4 + length bs) = ?q"
    by (simp add: f2)
  have m2: "load_bytes m ?q (4 + length cs) = store_u32 (length_sb g) @ cs"
    using m2' unfolding q .
  have fits1: "unat p + 4 + length bs \<le> unat end"
    using fits by simp
  have uq: "unat ?q = unat p + 4 + length bs"
    using unat_add_nowrap [of p "4 + length bs" "end"] fits1 q by (simp add: add.assoc)
  have fits2: "unat ?q + 4 + length cs \<le> unat end"
    using uq fits by simp
  have r1: "read_from_buffer m p end ?ph =
           (KG_ERROR_OK, ?q, f, addrs p (4 + length bs), released_as_is ?ph)"
    by (rule read_from_buffer_decodes [OF f1 f2 f3 m1 fits1])
  have r2: "read_from_buffer m ?q end ?pp =
           (KG_ERROR_OK, ?q + 4 + length_sb g, g, addrs ?q (4 + length cs), released_as_is ?pp)"
    by (rule read_from_buffer_decodes [OF g1 g2 g3 m2 fits2])
  have e1: "released_as_is ?ph = []" and e2: "released_as_is ?pp = []"
    by (simp_all add: released_as_is_def)
  have a: "addrs p (4 + length bs) @ addrs ?q (4 + length cs) = addrs p (8 + length bs + length cs)"
    using addrs_add [of p "4 + length bs" "4 + length cs"] q
    by (simp add: add.assoc add.left_commute)
  show ?thesis
    using lf r1 r2 e1 e2 a
    by (simp add: VerifyRequest_nonErrorDeserialize_def reset_buffer_eq wipe_and_reset_eq
        KG_ERROR_OK_def)
qed

section \<open>Round trip of messages whose fields are not empty\<close>

text \<open>
  For each variant: a message with error \<^verbatim>\<open>KG_ERROR_OK\<close> whose fields own non-empty
  arrays of exactly \<^verbatim>\<open>length\<close> bytes serializes to the bytes given,
  \<^verbatim>\<open>GetSerializedSize\<close> is their number, and deserializing a range that holds exactly
  these bytes into a default-constructed object gives the message back, reading each
  address of the range once, in order.
\<close>

lemma EnrollRequest_roundtrip:
  assumes ok: "error msg = KG_ERROR_OK"
    and buf: "buffer (EnrollRequest_provided_password msg) = Some bs"
    and len: "length bs = unat (length_sb (EnrollRequest_provided_password msg))"
    and nz: "bs \<noteq> []"
    and mem: "load_bytes m payload (12 + length bs)
                = store_u32 KG_ERROR_OK @ store_u32 (user_id msg)
                  @ store_u32 (length_sb (EnrollRequest_provided_password msg)) @ bs"
    and rng: "unat payload + 12 + length bs = unat end"
  shows "Serialize EnrollRequest_nonErrorSerializedSize EnrollRequest_nonErrorSerialize msg
           = Some (store_u32 KG_ERROR_OK @ store_u32 (user_id msg)
                   @ store_u32 (length_sb (EnrollRequest_provided_password msg)) @ bs)
       \<and> unat (GetSerializedSize EnrollRequest_nonErrorSerializedSize msg) = 12 + length bs
       \<and> Deserialize EnrollRequest_nonErrorDeserialize m payload end (EnrollRequest_default_ctor u)
           = Some (KG_ERROR_OK, msg, addrs payload (12 + length bs), [])"
proof -
  let ?f = "EnrollRequest_provided_password msg"
  let ?obj = "EnrollRequest_default_ctor u"
  have sz: "unat (12 + length_sb ?f) = 12 + length bs"
    using size_nowrap [of 12 "length_sb ?f" "end"] rng len by simp
  have ser: "EnrollRequest_nonErrorSerialize msg = Some (store_u32 (length_sb ?f) @ bs)"
    using append_to_buffer_owned [OF buf len] by (simp add: EnrollRequest_nonErrorSerialize_def)
  have S: "Serialize EnrollRequest_nonErrorSerializedSize EnrollRequest_nonErrorSerialize msg
           = Some (store_u32 KG_ERROR_OK @ store_u32 (user_id msg) @ store_u32 (length_sb ?f) @ bs)"
    using ok ser sz
    by (simp add: Serialize_def EnrollRequest_nonErrorSerializedSize_def
        serialized_buffer_size_def)
  have G: "unat (GetSerializedSize EnrollRequest_nonErrorSerializedSize msg) = 12 + length bs"
    using ok sz
    by (simp add: GetSerializedSize_def EnrollRequest_nonErrorSerializedSize_def
        serialized_buffer_size_def)
  from mem have "load_bytes m payload
        (length (store_u32 KG_ERROR_OK @ store_u32 (user_id msg))
         + length (store_u32 (length_sb ?f) @ bs))
      = (store_u32 KG_ERROR_OK @ store_u32 (user_id msg)) @ (store_u32 (length_sb ?f) @ bs)"
    by simp
  from load_bytes_split [OF this]
  have m1: "load_bytes m payload 8 = store_u32 KG_ERROR_OK @ store_u32 (user_id msg)"
    and m2: "load_bytes m (payload + 8) (4 + length bs) = store_u32 (length_sb ?f) @ bs"
    by simp_all
  have p8: "unat (payload + 8) = unat payload + 8"
    using unat_add_nowrap [of payload 8 "end"] rng by simp
  have fits: "unat (payload + 8) + 4 + length bs \<le> unat end"
    using p8 rng by simp
  have lf: "length_fits (EnrollRequest_provided_password
                           (?obj\<lparr>error := KG_ERROR_OK, user_id := user_id msg\<rparr>))"
    by (simp add: EnrollRequest_default_ctor_def zeroed_SizedBuffer_def length_fits_def)
  have rw: "released_wiped (EnrollRequest_provided_password
                           (?obj\<lparr>error := KG_ERROR_OK, user_id := user_id msg\<rparr>)) = []"
    by (simp add: EnrollRequest_default_ctor_def zeroed_SizedBuffer_def released_wiped_def)
  note hook = EnrollRequest_nonErrorDeserialize_decodes [OF buf len nz m2 fits lf, unfolded rw]
  have f8: "unat payload + 8 \<le> unat end"
    using rng by simp
  have res: "(?obj\<lparr>error := KG_ERROR_OK, user_id := user_id msg\<rparr>)
               \<lparr>EnrollRequest_provided_password := ?f\<rparr>\<lparr>error := KG_ERROR_OK\<rparr> = msg"
    using ok by (cases msg) (simp add: EnrollRequest_default_ctor_def)
  have a: "addrs payload 8 @ addrs (payload + 8) (4 + length bs) = addrs payload (12 + length bs)"
    using addrs_add [of payload 8 "4 + length bs"] by simp
  have D: "Deserialize EnrollRequest_nonErrorDeserialize m payload end ?obj
           = Some (KG_ERROR_OK, msg, addrs payload (12 + length bs), [])"
    using Deserialize_OK_envelope [where nonErrorDeserialize = EnrollRequest_nonErrorDeserialize
        and obj = ?obj, OF f8 m1 hook]
    by (simp only: res a)
  from S G D show ?thesis
    by blast
qed

lemma EnrollResponse_roundtrip:
  assumes ok: "error msg = KG_ERROR_OK"
    and buf: "buffer (EnrollResponse_enrolled_password_handle msg) = Some bs"
    and len: "length bs = unat (length_sb (EnrollResponse_enrolled_password_handle msg))"
    and nz: "bs \<noteq> []"
    and mem: "load_bytes m payload (12 + length bs)
                = store_u32 KG_ERROR_OK @ store_u32 (user_id msg)
                  @ store_u32 (length_sb (EnrollResponse_enrolled_password_handle msg)) @ bs"
    and rng: "unat payload + 12 + length bs = unat end"
  shows "Serialize EnrollResponse_nonErrorSerializedSize EnrollResponse_nonErrorSerialize msg
           = Some (store_u32 KG_ERROR_OK @ store_u32 (user_id msg)
                   @ store_u32 (length_sb (EnrollResponse_enrolled_password_handle msg)) @ bs)
       \<and> unat (GetSerializedSize EnrollResponse_nonErrorSerializedSize msg) = 12 + length bs
       \<and> Deserialize EnrollResponse_nonErrorDeserialize m payload end (EnrollResponse_default_ctor u)
           = Some (KG_ERROR_OK, msg, addrs payload (12 + length bs), [])"
proof -
  let ?f = "EnrollResponse_enrolled_password_handle msg"
  let ?obj = "EnrollResponse_default_ctor u"
  have sz: "unat (12 + length_sb ?f) = 12 + length bs"
    using size_nowrap [of 12 "length_sb ?f" "end"] rng len by simp
  have ser: "EnrollResponse_nonErrorSerialize msg = Some (store_u32 (length_sb ?f) @ bs)"
    using append_to_buffer_owned [OF buf len] by (simp add: EnrollResponse_nonErrorSerialize_def)
  have S: "Serialize EnrollResponse_nonErrorSerializedSize EnrollResponse_nonErrorSerialize msg
           = Some (store_u32 KG_ERROR_OK @ store_u32 (user_id msg) @ store_u32 (length_sb ?f) @ bs)"
    using ok ser sz
    by (simp add: Serialize_def EnrollResponse_nonErrorSerializedSize_def
        serialized_buffer_size_def)
  have G: "unat (GetSerializedSize EnrollResponse_nonErrorSerializedSize msg) = 12 + length bs"
    using ok sz
    by (simp add: GetSerializedSize_def EnrollResponse_nonErrorSerializedSize_def
        serialized_buffer_size_def)
  from mem have "load_bytes m payload
        (length (store_u32 KG_ERROR_OK @ store_u32 (user_id msg))
         + length (store_u32 (length_sb ?f) @ bs))
      = (store_u32 KG_ERROR_OK @ store_u32 (user_id msg)) @ (store_u32 (length_sb ?f) @ bs)"
    by simp
  from load_bytes_split [OF this]
  have m1: "load_bytes m payload 8 = store_u32 KG_ERROR_OK @ store_u32 (user_id msg)"
    and m2: "load_bytes m (payload + 8) (4 + length bs) = store_u32 (length_sb ?f) @ bs"
    by simp_all
  have p8: "unat (payload + 8) = unat payload + 8"
    using unat_add_nowrap [of payload 8 "end"] rng by simp
  have fits: "unat (payload + 8) + 4 + length bs \<le> unat end"
    using p8 rng by simp
  have rw: "released_as_is (EnrollResponse_enrolled_password_handle
                           (?obj\<lparr>error := KG_ERROR_OK, user_id := user_id msg\<rparr>)) = []"
    by (simp add: EnrollResponse_default_ctor_def zeroed_SizedBuffer_def released_as_is_def)
  note hook = EnrollResponse_nonErrorDeserialize_decodes [OF buf len nz m2 fits,
      of "?obj\<lparr>error := KG_ERROR_OK, user_id := user_id msg\<rparr>", unfolded rw]
  have f8: "unat payload + 8 \<le> unat end"
    using rng by simp
  have res: "(?obj\<lparr>error := KG_ERROR_OK, user_id := user_id msg\<rparr>)
               \<lparr>EnrollResponse_enrolled_password_handle := ?f\<rparr>\<lparr>error := KG_ERROR_OK\<rparr> = msg"
    using ok by (cases msg) (simp add: EnrollResponse_default_ctor_def)
  have a: "addrs payload 8 @ addrs (payload + 8) (4 + length bs) = addrs payload (12 + length bs)"
    using addrs_add [of payload 8 "4 + length bs"] by simp
  have D: "Deserialize EnrollResponse_nonErrorDeserialize m payload end ?obj
           = Some (KG_ERROR_OK, msg, addrs payload (12 + length bs), [])"
    using Deserialize_OK_envelope [where nonErrorDeserialize = EnrollResponse_nonErrorDeserialize
        and obj = ?obj, OF f8 m1 hook]
    by (simp only: res a)
  from S G D show ?thesis
    by blast
qed

lemma VerifyResponse_roundtrip:
  assumes ok: "error msg = KG_ERROR_OK"
    and buf: "buffer (VerifyResponse_verification_token msg) = Some bs"
    and len: "length bs = unat (length_sb (VerifyResponse_verification_token msg))"
    and nz: "bs \<noteq> []"
    and mem: "load_bytes m payload (12 + length bs)
                = store_u32 KG_ERROR_OK @ store_u32 (user_id msg)
                  @ store_u32 (length_sb (VerifyResponse_verification_token msg)) @ bs"
    and rng: "unat payload + 12 + length bs = unat end"
  shows "Serialize VerifyResponse_nonErrorSerializedSize VerifyResponse_nonErrorSerialize msg
           = Some (store_u32 KG_ERROR_OK @ store_u32 (user_id msg)
                   @ store_u32 (length_sb (VerifyResponse_verification_token msg)) @ bs)
       \<and> unat (GetSerializedSize VerifyResponse_nonErrorSerializedSize msg) = 12 + length bs
       \<and> Deserialize VerifyResponse_nonErrorDeserialize m payload end (VerifyResponse_default_ctor u)
           = Some (KG_ERROR_OK, msg, addrs payload (12 + length bs), [])"
proof -
  let ?f = "VerifyResponse_verification_token msg"
  let ?obj = "VerifyResponse_default_ctor u"
  have sz: "unat (12 + length_sb ?f) = 12 + length bs"
    using size_nowrap [of 12 "length_sb ?f" "end"] rng len by simp
  have ser: "VerifyResponse_nonErrorSerialize msg = Some (store_u32 (length_sb ?f) @ bs)"
    using append_to_buffer_owned [OF buf len] by (simp add: VerifyResponse_nonErrorSerialize_def)
  have S: "Serialize VerifyResponse_nonErrorSerializedSize VerifyResponse_nonErrorSerialize msg
           = Some (store_u32 KG_ERROR_OK @ store_u32 (user_id msg) @ store_u32 (length_sb ?f) @ bs)"
    using ok ser sz
    by (simp add: Serialize_def VerifyResponse_nonErrorSerializedSize_def
        serialized_buffer_size_def)
  have G: "unat (GetSerializedSize VerifyResponse_nonErrorSerializedSize msg) = 12 + length bs"
    using ok sz
    by (simp add: GetSerializedSize_def VerifyResponse_nonErrorSerializedSize_def
        serialized_buffer_size_def)
  from mem have "load_bytes m payload
        (length (store_u32 KG_ERROR_OK @ store_u32 (user_id msg))
         + length (store_u32 (length_sb ?f) @ bs))
      = (store_u32 KG_ERROR_OK @ store_u32 (user_id msg)) @ (store_u32 (length_sb ?f) @ bs)"
    by simp
  from load_bytes_split [OF this]
  have m1: "load_bytes m payload 8 = store_u32 KG_ERROR_OK @ store_u32 (user_id msg)"
    and m2: "load_bytes m (payload + 8) (4 + length bs) = store_u32 (length_sb ?f) @ bs"
    by simp_all
  have p8: "unat (payload + 8) = unat payload + 8"
    using unat_add_nowrap [of payload 8 "end"] rng by simp
  have fits: "unat (payload + 8) + 4 + length bs \<le> unat end"
    using p8 rng by simp
  have rw: "released_as_is (VerifyResponse_verification_token
                           (?obj\<lparr>error := KG_ERROR_OK, user_id := user_id msg\<rparr>)) = []"
    by (simp add: VerifyResponse_default_ctor_def zeroed_SizedBuffer_def released_as_is_def)
  note hook = VerifyResponse_nonErrorDeserialize_decodes [OF buf len nz m2 fits,
      of "?obj\<lparr>error := KG_ERROR_OK, user_id := user_id msg\<rparr>", unfolded rw]
  have f8: "unat payload + 8 \<le> unat end"
    using rng by simp
  have res: "(?obj\<lparr>error := KG_ERROR_OK, user_id := user_id msg\<rparr>)
               \<lparr>VerifyResponse_verification_token := ?f\<rparr>\<lparr>error := KG_ERROR_OK\<rparr> = msg"
    using ok by (cases msg) (simp add: VerifyResponse_default_ctor_def)
  have a: "addrs payload 8 @ addrs (payload + 8) (4 + length bs) = addrs payload (12 + length bs)"
    using addrs_add [of payload 8 "4 + length bs"] by simp
  have D: "Deserialize VerifyResponse_nonErrorDeserialize m payload end ?obj
           = Some (KG_ERROR_OK, msg, addrs payload (12 + length bs), [])"
    using Deserialize_OK_envelope [where nonErrorDeserialize = VerifyResponse_nonErrorDeserialize
        and obj = ?obj, OF f8 m1 hook]
    by (simp only: res a)
  from S G D show ?thesis
    by blast
qed

lemma VerifyRequest_roundtrip:
  assumes ok: "error msg = KG_ERROR_OK"
    and f1: "buffer (VerifyRequest_password_handle msg) = Some bs"
    and f2: "length bs = unat (length_sb (VerifyRequest_password_handle msg))"
    and f3: "bs \<noteq> []"
    and g1: "buffer (VerifyRequest_provided_password msg) = Some cs"
    and g2: "length cs = unat (length_sb (VerifyRequest_provided_password msg))"
    and g3: "cs \<noteq> []"
    and mem: "load_bytes m payload (16 + length bs + length cs)
                = store_u32 KG_ERROR_OK @ store_u32 (user_id msg)
                  @ store_u32 (length_sb (VerifyRequest_password_handle msg)) @ bs
                  @ store_u32 (length_sb (VerifyRequest_provided_password msg)) @ cs"
    and rng: "unat payload + 16 + length bs + length cs = unat end"
  shows "Serialize VerifyRequest_nonErrorSerializedSize VerifyRequest_nonErrorSerialize msg
           = Some (store_u32 KG_ERROR_OK @ store_u32 (user_id msg)
                   @ store_u32 (length_sb (VerifyRequest_password_handle msg)) @ bs
                   @ store_u32 (length_sb (VerifyRequest_provided_password msg)) @ cs)
       \<and> unat (GetSerializedSize VerifyRequest_nonErrorSerializedSize msg)
           = 16 + length bs + length cs
       \<and> Deserialize VerifyRequest_nonErrorDeserialize m payload end (VerifyRequest_default_ctor u)
           = Some (KG_ERROR_OK, msg, addrs payload (16 + length bs + length cs), [])"
proof -
  let ?f = "VerifyRequest_password_handle msg"
  let ?g = "VerifyRequest_provided_password msg"
  let ?obj = "VerifyRequest_default_ctor u"
  have s1: "unat (length_sb ?f + length_sb ?g) = length bs + length cs"
    using unat_add_nowrap [of "length_sb ?f" "length cs" "end"] rng f2 g2 by simp
  have sz: "unat (16 + (length_sb ?f + length_sb ?g)) = 16 + length bs + length cs"
    using size_nowrap [of 16 "length_sb ?f + length_sb ?g" "end"] rng s1 by simp
  have w: "2 * 4 + (4 + length_sb ?f + (4 + length_sb ?g)) = 16 + (length_sb ?f + length_sb ?g)"
    by simp
  have ser: "VerifyRequest_nonErrorSerialize msg
               = Some (store_u32 (length_sb ?f) @ bs @ store_u32 (length_sb ?g) @ cs)"
    using append_to_buffer_owned [OF f1 f2] append_to_buffer_owned [OF g1 g2]
    by (simp add: VerifyRequest_nonErrorSerialize_def)
  have S: "Serialize VerifyRequest_nonErrorSerializedSize VerifyRequest_nonErrorSerialize msg
           = Some (store_u32 KG_ERROR_OK @ store_u32 (user_id msg)
                   @ store_u32 (length_sb ?f) @ bs @ store_u32 (length_sb ?g) @ cs)"
    using ok ser sz
    by (simp add: Serialize_def VerifyRequest_nonErrorSerializedSize_def
        serialized_buffer_size_def w)
  have G: "unat (GetSerializedSize VerifyRequest_nonErrorSerializedSize msg)
             = 16 + length bs + length cs"
    using ok sz
    by (simp add: GetSerializedSize_def VerifyRequest_nonErrorSerializedSize_def
        serialized_buffer_size_def w)
  from mem have "load_bytes m payload
        (length (store_u32 KG_ERROR_OK @ store_u32 (user_id msg))
         + length (store_u32 (length_sb ?f) @ bs @ store_u32 (length_sb ?g) @ cs))
      = (store_u32 KG_ERROR_OK @ store_u32 (user_id msg))
        @ (store_u32 (length_sb ?f) @ bs @ store_u32 (length_sb ?g) @ cs)"
    by (simp add: add.assoc)
  from load_bytes_split [OF this]
  have m1: "load_bytes m payload 8 = store_u32 KG_ERROR_OK @ store_u32 (user_id msg)"
    and m2: "load_bytes m (payload + 8) (8 + length bs + length cs)
               = store_u32 (length_sb ?f) @ bs @ store_u32 (length_sb ?g) @ cs"
    by (simp_all add: add.assoc)
  have p8: "unat (payload + 8) = unat payload + 8"
    using unat_add_nowrap [of payload 8 "end"] rng by simp
  have fits: "unat (payload + 8) + 8 + length bs + length cs \<le> unat end"
    using p8 rng by simp
  have lf: "length_fits (VerifyRequest_provided_password
                           (?obj\<lparr>error := KG_ERROR_OK, user_id := user_id msg\<rparr>))"
    by (simp add: VerifyRequest_default_ctor_def zeroed_SizedBuffer_def length_fits_def)
  have rw: "released_as_is (VerifyRequest_password_handle
                           (?obj\<lparr>error := KG_ERROR_OK, user_id := user_id msg\<rparr>))
            @ released_wiped (VerifyRequest_provided_password
                           (?obj\<lparr>error := KG_ERROR_OK, user_id := user_id msg\<rparr>)) = []"
    by (simp add: VerifyRequest_default_ctor_def zeroed_SizedBuffer_def released_as_is_def
        released_wiped_def)
  note hook = VerifyRequest_nonErrorDeserialize_decodes [OF f1 f2 f3 g1 g2 g3 m2 fits lf,
      unfolded rw]
  have f8: "unat payload + 8 \<le> unat end"
    using rng by simp
  have res: "(?obj\<lparr>error := KG_ERROR_OK, user_id := user_id msg\<rparr>)
               \<lparr>VerifyRequest_password_handle := ?f, VerifyRequest_provided_password := ?g\<rparr>
               \<lparr>error := KG_ERROR_OK\<rparr> = msg"
    using ok by (cases msg) (simp add: VerifyRequest_default_ctor_def)
  have a: "addrs payload 8 @ addrs (payload + 8) (8 + length bs + length cs)
             = addrs payload (16 + length bs + length cs)"
    using addrs_add [of payload 8 "8 + length bs + length cs"] by (simp add: add.assoc)
  have D: "Deserialize VerifyRequest_nonErrorDeserialize m payload end ?obj
           = Some (KG_ERROR_OK, msg, addrs payload (16 + length bs + length cs), [])"
    using Deserialize_OK_envelope [where nonErrorDeserialize = VerifyRequest_nonErrorDeserialize
        and obj = ?obj, OF f8 m1 hook]
    by (simp only: res a)
  from S G D show ?thesis
    by blast
qed

section \<open>The inputs read_from_buffer accepts\<close>

text \<open>
  For a cursor inside a range that ends at least four bytes below the top of the address
  space, \<^verbatim>\<open>read_from_buffer\<close> succeeds exactly when more than four bytes remain, the
  length field is not zero and the payload ends inside the range.
\<close>

lemma wrap_below:
  fixes a l :: nat
  assumes "a < 4294967296" and "l < 4294967296" and "4294967296 \<le> a + l"
  shows "(a + l) mod 4294967296 < a"
proof -
  have "(a + l) mod 4294967296 = a + l - 4294967296"
    using assms by (simp add: mod_if)
  with assms show ?thesis
    by simp
qed

lemma read_from_buffer_OK_iff:
  fixes buf e :: addr
  assumes inr: "unat buf \<le> unat e"
    and top: "unat e + 4 < 2 ^ 32"
  shows "fst (read_from_buffer m buf e t) =
           (if 4 < unat e - unat buf
               \<and> load_u32 (load_bytes m buf 4) \<noteq> 0
               \<and> unat buf + 4 + unat (load_u32 (load_bytes m buf 4)) \<le> unat e
            then KG_ERROR_OK else KG_ERROR_INVALID)"
proof -
  let ?len = "load_u32 (load_bytes m buf 4)"
  have b1: "unat (buf + 4) = unat buf + 4"
    using inr top by (simp add: unat_word_ariths)
  have lenlt: "unat ?len < 4294967296"
    using unsigned_less [of ?len] by simp
  have b1lt: "unat buf + 4 < 4294967296"
    using inr top by simp
  have be: "unat (buf + 4 + ?len) = (unat buf + 4 + unat ?len) mod 4294967296"
    using b1 by (simp add: unat_word_ariths)
  show ?thesis
  proof (cases "4 < unat e - unat buf")
    case False
    then have "e \<le> buf + 4"
      using b1 by (simp add: word_le_nat_alt)
    with False show ?thesis
      by (simp add: read_from_buffer_def)
  next
    case room: True
    then have c1: "\<not> e \<le> buf + 4"
      using b1 by (simp add: word_le_nat_alt)
    show ?thesis
    proof (cases "?len = 0")
      case True
      with c1 show ?thesis
        by (simp add: read_from_buffer_def Let_def)
    next
      case nz: False
      show ?thesis
      proof (cases "unat buf + 4 + unat ?len \<le> unat e")
        case True
        from read_from_buffer_OK [OF True nz refl, of t] room nz True show ?thesis
          by simp
      next
        case over: False
        have "e < buf + 4 + ?len \<or> buf + 4 + ?len \<le> buf + 4"
        proof (cases "unat buf + 4 + unat ?len < 4294967296")
          case True
          then have "unat (buf + 4 + ?len) = unat buf + 4 + unat ?len"
            using be by simp
          with over show ?thesis
            by (simp add: word_less_nat_alt)
        next
          case False
          then have "unat (buf + 4 + ?len) < unat buf + 4"
            using be wrap_below [of "unat buf + 4" "unat ?len"] b1lt lenlt by simp
          then show ?thesis
            using b1 by (simp add: word_le_nat_alt)
        qed
        with c1 over show ?thesis
          by (auto simp add: read_from_buffer_def Let_def)
      qed
    qed
  qed
qed

section \<open>Reads inside the input range\<close>

text \<open>
  \<^verbatim>\<open>read_from_buffer\<close> and the four hooks read inside \<open>[cursor, end)\<close> only.
  \<^verbatim>\<open>Deserialize\<close> reads inside \<open>[payload, end)\<close> unless the range holds the error
  code \<^verbatim>\<open>KG_ERROR_OK\<close> followed by one, two or three bytes.
\<close>

lemma reads_within_Nil [simp]: "reads_within p e []"
  by (simp add: reads_within_def)

lemma reads_within_append [simp]:
  "reads_within p e (xs @ ys) \<longleftrightarrow> reads_within p e xs \<and> reads_within p e ys"
  by (simp add: reads_within_def)

lemma reads_within_addrs:
  fixes p q e :: addr
  assumes "unat p \<le> unat q" and "unat q + n \<le> unat e"
  shows "reads_within p e (addrs q n)"
proof -
  have "p \<le> q + of_nat i \<and> q + of_nat i < e" if "i < n" for i
  proof -
    have "unat (q + of_nat i) = unat q + i"
      using unat_add_nowrap [of q i e] assms(2) that by simp
    with assms that show ?thesis
      by (simp add: word_le_nat_alt word_less_nat_alt)
  qed
  then show ?thesis
    by (simp add: reads_within_def addrs_def list_all_iff)
qed

lemma reads_within_from_later:
  fixes p q e :: addr
  assumes "unat p \<le> unat q" and "reads_within q e rd"
  shows "reads_within p e rd"
proof -
  have "p \<le> q"
    using assms(1) by (simp add: word_le_nat_alt)
  with assms(2) show ?thesis
    by (auto simp add: reads_within_def list_all_iff)
qed

lemma read_from_buffer_safe:
  fixes buf e :: addr
  assumes inr: "unat buf \<le> unat e"
    and top: "unat e + 4 < 2 ^ 32"
    and res: "read_from_buffer m buf e t = (err, cur, t', rd, fr)"
  shows "reads_within buf e rd
       \<and> (err = KG_ERROR_OK \<or> err = KG_ERROR_INVALID)
       \<and> (if err = KG_ERROR_OK then unat buf \<le> unat cur \<and> unat cur \<le> unat e else True)"
proof -
  let ?len = "load_u32 (load_bytes m buf 4)"
  have b1: "unat (buf + 4) = unat buf + 4"
    using inr top by (simp add: unat_word_ariths)
  note iff = read_from_buffer_OK_iff [OF inr top, of m t]
  show ?thesis
  proof (cases "4 < unat e - unat buf \<and> ?len \<noteq> 0 \<and> unat buf + 4 + unat ?len \<le> unat e")
    case True
    then have fits: "unat buf + 4 + unat ?len \<le> unat e" and nz: "?len \<noteq> 0"
      by simp_all
    have "unat (buf + 4 + of_nat (unat ?len)) = unat (buf + 4) + unat ?len"
      using unat_add_nowrap [of "buf + 4" "unat ?len" e] fits b1 by simp
    then have b2: "unat (buf + 4 + ?len) = unat buf + 4 + unat ?len"
      using b1 by simp
    from read_from_buffer_OK [OF fits nz refl, of t] res
    have "err = KG_ERROR_OK" and "cur = buf + 4 + ?len" and "rd = addrs buf (4 + unat ?len)"
      by simp_all
    then show ?thesis
      using reads_within_addrs [of buf buf "4 + unat ?len" e] fits b2 by simp
  next
    case False
    with iff res have inv: "err = KG_ERROR_INVALID"
      by simp
    have ne: "KG_ERROR_INVALID \<noteq> KG_ERROR_OK"
      by (simp add: KG_ERROR_INVALID_def KG_ERROR_OK_def)
    have "rd = [] \<or> (rd = addrs buf 4 \<and> \<not> e \<le> buf + 4)"
      using res inv ne
      by (auto simp add: read_from_buffer_def Let_def split: if_splits)
    then have "reads_within buf e rd"
    proof
      assume "rd = []"
      then show ?thesis by simp
    next
      assume a: "rd = addrs buf 4 \<and> \<not> e \<le> buf + 4"
      then have "unat buf + 4 \<le> unat e"
        using b1 by (simp add: word_le_nat_alt)
      with a show ?thesis
        using reads_within_addrs [of buf buf 4 e] by simp
    qed
    with inv ne show ?thesis
      by simp
  qed
qed

lemma EnrollRequest_nonErrorDeserialize_safe:
  fixes p e :: addr
  assumes inr: "unat p \<le> unat e" and top: "unat e + 4 < 2 ^ 32"
    and res: "EnrollRequest_nonErrorDeserialize m p e obj = Some (err, obj', rd, fr)"
  shows "reads_within p e rd \<and> (err = KG_ERROR_OK \<or> err = KG_ERROR_INVALID)"
proof -
  from res obtain pp fr1 where w: "wipe_and_reset (EnrollRequest_provided_password obj) = Some (pp, fr1)"
    by (auto simp add: EnrollRequest_nonErrorDeserialize_def split: option.splits)
  obtain err1 cur t1 rd1 fr2 where r: "read_from_buffer m p e pp = (err1, cur, t1, rd1, fr2)"
    by (cases "read_from_buffer m p e pp") auto
  from res w r have "err = err1" and "rd = rd1"
    by (simp_all add: EnrollRequest_nonErrorDeserialize_def)
  with read_from_buffer_safe [OF inr top r] show ?thesis
    by simp
qed

lemma EnrollResponse_nonErrorDeserialize_safe:
  fixes p e :: addr
  assumes inr: "unat p \<le> unat e" and top: "unat e + 4 < 2 ^ 32"
    and res: "EnrollResponse_nonErrorDeserialize m p e obj = Some (err, obj', rd, fr)"
  shows "reads_within p e rd \<and> (err = KG_ERROR_OK \<or> err = KG_ERROR_INVALID)"
proof -
  let ?h = "(EnrollResponse_enrolled_password_handle obj)\<lparr>buffer := None\<rparr>"
  obtain err1 cur t1 rd1 fr2 where r: "read_from_buffer m p e ?h = (err1, cur, t1, rd1, fr2)"
    by (cases "read_from_buffer m p e ?h") auto
  from res r have "err = err1" and "rd = rd1"
    by (simp_all add: EnrollResponse_nonErrorDeserialize_def reset_buffer_eq)
  with read_from_buffer_safe [OF inr top r] show ?thesis
    by simp
qed

lemma VerifyResponse_nonErrorDeserialize_safe:
  fixes p e :: addr
  assumes inr: "unat p \<le> unat e" and top: "unat e + 4 < 2 ^ 32"
    and res: "VerifyResponse_nonErrorDeserialize m p e obj = Some (err, obj', rd, fr)"
  shows "reads_within p e rd \<and> (err = KG_ERROR_OK \<or> err = KG_ERROR_INVALID)"
proof -
  let ?h = "(VerifyResponse_verification_token obj)\<lparr>buffer := None\<rparr>"
  obtain err1 cur t1 rd1 fr2 where r: "read_from_buffer m p e ?h = (err1, cur, t1, rd1, fr2)"
    by (cases "read_from_buffer m p e ?h") auto
  from res r have "err = err1" and "rd = rd1"
    by (simp_all add: VerifyResponse_nonErrorDeserialize_def reset_buffer_eq)
  with read_from_buffer_safe [OF inr top r] show ?thesis
    by simp
qed

lemma VerifyRequest_nonErrorDeserialize_safe:
  fixes p e :: addr
  assumes inr: "unat p \<le> unat e" and top: "unat e + 4 < 2 ^ 32"
    and res: "VerifyRequest_nonErrorDeserialize m p e obj = Some (err, obj', rd, fr)"
  shows "reads_within p e rd \<and> (err = KG_ERROR_OK \<or> err = KG_ERROR_INVALID)"
proof -
  let ?ph = "(VerifyRequest_password_handle obj)\<lparr>buffer := None\<rparr>"
  from res obtain pp fr1 where w: "wipe_and_reset (VerifyRequest_provided_password obj) = Some (pp, fr1)"
    by (auto simp add: VerifyRequest_nonErrorDeserialize_def reset_buffer_eq split: option.splits)
  obtain err1 cur t1 rd1 fr2 where r1: "read_from_buffer m p e ?ph = (err1, cur, t1, rd1, fr2)"
    by (cases "read_from_buffer m p e ?ph") auto
  note s1 = read_from_buffer_safe [OF inr top r1]
  show ?thesis
  proof (cases "err1 = KG_ERROR_OK")
    case False
    with res w r1 have "err = err1" and "rd = rd1"
      by (simp_all add: VerifyRequest_nonErrorDeserialize_def reset_buffer_eq)
    with s1 show ?thesis
      by simp
  next
    case True
    with s1 have c: "unat p \<le> unat cur" "unat cur \<le> unat e"
      by simp_all
    obtain err2 cur2 t2 rd2 fr3 where r2: "read_from_buffer m cur e pp = (err2, cur2, t2, rd2, fr3)"
      by (cases "read_from_buffer m cur e pp") auto
    note s2 = read_from_buffer_safe [OF c(2) top r2]
    from res w r1 r2 True have "err = err2" and "rd = rd1 @ rd2"
      by (simp_all add: VerifyRequest_nonErrorDeserialize_def reset_buffer_eq)
    with s1 s2 reads_within_from_later [OF c(1), of e rd2] show ?thesis
      by simp
  qed
qed

lemma Deserialize_safe:
  fixes payload e :: addr
  assumes inr: "unat payload \<le> unat e"
    and top: "unat e + 12 < 2 ^ 32"
    and hook: "\<And>obj err obj' rd fr.
                 unat (payload + 8) \<le> unat e \<Longrightarrow>
                 nonErrorDeserialize m (payload + 8) e obj = Some (err, obj', rd, fr) \<Longrightarrow>
                 reads_within (payload + 8) e rd"
    and enough: "load_u32 (load_bytes m payload 4) \<noteq> KG_ERROR_OK
                   \<or> unat e - unat payload \<le> 4 \<or> 8 \<le> unat e - unat payload"
    and res: "Deserialize nonErrorDeserialize m payload e obj = Some (err, obj', rd, fr)"
  shows "reads_within payload e rd"
proof (cases "unat payload + 4 \<le> unat e")
  case False
  have "unat (payload + 4) = unat payload + 4"
    using inr top by (simp add: unat_word_ariths)
  with False have "e < payload + 4"
    by (simp add: word_less_nat_alt)
  with res show ?thesis
    by (simp add: Deserialize_def)
next
  case four: True
  then have c1: "\<not> e < payload + 4"
    using four_bytes_in_range [of payload e] by simp
  have b4: "unat (payload + 4) = unat payload + 4"
    using inr top by (simp add: unat_word_ariths)
  have h4: "reads_within payload e (addrs payload 4)"
    using reads_within_addrs [of payload payload 4 e] four by simp
  show ?thesis
  proof (cases "load_u32 (load_bytes m payload 4) = KG_ERROR_OK")
    case False
    with res c1 have "rd = addrs payload 4"
      by (simp add: Deserialize_def Let_def)
    with h4 show ?thesis
      by simp
  next
    case ok: True
    show ?thesis
    proof (cases "payload + 4 = e")
      case True
      with res c1 ok have "rd = addrs payload 4"
        by (simp add: Deserialize_def Let_def)
      with h4 show ?thesis
        by simp
    next
      case False
      then have "unat (payload + 4) \<noteq> unat e"
        by (simp add: word_unat_eq_iff)
      then have "unat e - unat payload \<noteq> 4"
        using b4 four by simp
      with enough ok four have eight: "unat payload + 8 \<le> unat e"
        by auto
      have b8: "unat (payload + 8) = unat payload + 8"
        using inr top by (simp add: unat_word_ariths)
      have h8: "reads_within payload e (addrs (payload + 4) 4)"
        using reads_within_addrs [of payload "payload + 4" 4 e] b4 eight by simp
      let ?obj2 = "obj\<lparr>error := load_u32 (load_bytes m payload 4),
                       user_id := load_u32 (load_bytes m (payload + 4) 4)\<rparr>"
      from res c1 ok False obtain err3 obj3 rd3 fr3
        where hk: "nonErrorDeserialize m (payload + 8) e ?obj2 = Some (err3, obj3, rd3, fr3)"
          and rd: "rd = addrs payload 4 @ addrs (payload + 4) 4 @ rd3"
        by (auto simp add: Deserialize_def Let_def add.commute split: option.splits)
      have "reads_within (payload + 8) e rd3"
        using hook [OF _ hk] b8 eight by simp
      then have "reads_within payload e rd3"
        using reads_within_from_later [of payload "payload + 8" e rd3] b8 by simp
      with rd h4 h8 show ?thesis
        by simp
    qed
  qed
qed

lemma VerifyRequest_Deserialize_safe:
  fixes payload e :: addr
  assumes inr: "unat payload \<le> unat e"
    and top: "unat e + 12 < 2 ^ 32"
    and enough: "load_u32 (load_bytes m payload 4) \<noteq> KG_ERROR_OK
                   \<or> unat e - unat payload \<le> 4 \<or> 8 \<le> unat e - unat payload"
    and res: "Deserialize VerifyRequest_nonErrorDeserialize m payload e obj = Some (err, obj', rd, fr)"
  shows "reads_within payload e rd"
proof -
  have top4: "unat e + 4 < 2 ^ 32"
    using top by simp
  show ?thesis
    using Deserialize_safe [where nonErrorDeserialize = VerifyRequest_nonErrorDeserialize,
        OF inr top _ enough res]
      VerifyRequest_nonErrorDeserialize_safe [OF _ top4]
    by blast
qed

lemma VerifyResponse_Deserialize_safe:
  fixes payload e :: addr
  assumes inr: "unat payload \<le> unat e"
    and top: "unat e + 12 < 2 ^ 32"
    and enough: "load_u32 (load_bytes m payload 4) \<noteq> KG_ERROR_OK
                   \<or> unat e - unat payload \<le> 4 \<or> 8 \<le> unat e - unat payload"
    and res: "Deserialize VerifyResponse_nonErrorDeserialize m payload e obj = Some (err, obj', rd, fr)"
  shows "reads_within payload e rd"
proof -
  have top4: "unat e + 4 < 2 ^ 32"
    using top by simp
  show ?thesis
    using Deserialize_safe [where nonErrorDeserialize = VerifyResponse_nonErrorDeserialize,
        OF inr top _ enough res]
      VerifyResponse_nonErrorDeserialize_safe [OF _ top4]
    by blast
qed

lemma EnrollRequest_Deserialize_safe:
  fixes payload e :: addr
  assumes inr: "unat payload \<le> unat e"
    and top: "unat e + 12 < 2 ^ 32"
    and enough: "load_u32 (load_bytes m payload 4) \<noteq> KG_ERROR_OK
                   \<or> unat e - unat payload \<le> 4 \<or> 8 \<le> unat e - unat payload"
    and res: "Deserialize EnrollRequest_nonErrorDeserialize m payload e obj = Some (err, obj', rd, fr)"
  shows "reads_within payload e rd"
proof -
  have top4: "unat e + 4 < 2 ^ 32"
    using top by simp
  show ?thesis
    using Deserialize_safe [where nonErrorDeserialize = EnrollRequest_nonErrorDeserialize,
        OF inr top _ enough res]
      EnrollRequest_nonErrorDeserialize_safe [OF _ top4]
    by blast
qed

lemma EnrollResponse_Deserialize_safe:
  fixes payload e :: addr
  assumes inr: "unat payload \<le> unat e"
    and top: "unat e + 12 < 2 ^ 32"
    and enough: "load_u32 (load_bytes m payload 4) \<noteq> KG_ERROR_OK
                   \<or> unat e - unat payload \<le> 4 \<or> 8 \<le> unat e - unat payload"
    and res: "Deserialize EnrollResponse_nonErrorDeserialize m payload e obj = Some (err, obj', rd, fr)"
  shows "reads_within payload e rd"
proof -
  have top4: "unat e + 4 < 2 ^ 32"
    using top by simp
  show ?thesis
    using Deserialize_safe [where nonErrorDeserialize = EnrollResponse_nonErrorDeserialize,
        OF inr top _ enough res]
      EnrollResponse_nonErrorDeserialize_safe [OF _ top4]
    by blast
qed

section \<open>The envelope with an error\<close>

text \<open>
  C6. A message whose error is not \<^verbatim>\<open>KG_ERROR_OK\<close> has serialized size 4 and serializes
  to the four bytes of its error code and nothing else. On an input range that holds at
  least four bytes, the first four of which decode to an error code other than
  \<^verbatim>\<open>KG_ERROR_OK\<close>, \<^verbatim>\<open>Deserialize\<close> returns that error code and reads the first four
  addresses of the range only, whatever follows them. This holds for every variant.
\<close>

theorem error_short_circuit:
  assumes "error msg \<noteq> KG_ERROR_OK"
    and "unat payload + 4 \<le> unat end"
    and "load_u32 (load_bytes m payload 4) \<noteq> KG_ERROR_OK"
  shows "GetSerializedSize nonErrorSerializedSize msg = 4
       \<and> Serialize nonErrorSerializedSize nonErrorSerialize msg = Some (store_u32 (error msg))
       \<and> length (store_u32 (error msg)) = 4
       \<and> (\<exists>obj'. Deserialize nonErrorDeserialize m payload end obj =
              Some (load_u32 (load_bytes m payload 4), obj', addrs payload 4, []))"
  using assms four_bytes_in_range [of payload "end"]
  by (simp add: GetSerializedSize_def Serialize_def Deserialize_def store_u32_def Let_def)

theorem error_short_circuit_witness:
  "error ((fst (EnrollRequest_ctor 3857 \<lparr>buffer = Some [5, 6], length_sb = 2\<rparr>))
            \<lparr>error := KG_ERROR_INVALID\<rparr>) \<noteq> KG_ERROR_OK
   \<and> unat (0x1000 :: addr) + 4 \<le> unat (0x1006 :: addr)
   \<and> load_u32 (load_bytes (place 0x1000 [1, 0, 0, 0, 9, 9]) 0x1000 4) \<noteq> KG_ERROR_OK
   \<and> GetSerializedSize EnrollRequest_nonErrorSerializedSize
        ((fst (EnrollRequest_ctor 3857 \<lparr>buffer = Some [5, 6], length_sb = 2\<rparr>))
            \<lparr>error := KG_ERROR_INVALID\<rparr>) = 4
   \<and> Serialize EnrollRequest_nonErrorSerializedSize EnrollRequest_nonErrorSerialize
        ((fst (EnrollRequest_ctor 3857 \<lparr>buffer = Some [5, 6], length_sb = 2\<rparr>))
            \<lparr>error := KG_ERROR_INVALID\<rparr>) = Some [1, 0, 0, 0]
   \<and> (\<exists>obj'. Deserialize EnrollRequest_nonErrorDeserialize
                 (place 0x1000 [1, 0, 0, 0, 9, 9]) 0x1000 0x1006 (EnrollRequest_default_ctor 0) =
               Some (KG_ERROR_INVALID, obj', [0x1000, 0x1001, 0x1002, 0x1003], []))"
proof -
  let ?msg = "(fst (EnrollRequest_ctor 3857 \<lparr>buffer = Some [5, 6], length_sb = 2\<rparr>))
                \<lparr>error := KG_ERROR_INVALID\<rparr>"
  let ?m = "place 0x1000 [1, 0, 0, 0, 9, 9]"
  have h1: "error ?msg \<noteq> KG_ERROR_OK"
    by (simp add: KG_ERROR_OK_def KG_ERROR_INVALID_def)
  have h2: "unat (0x1000 :: addr) + 4 \<le> unat (0x1006 :: addr)"
    by simp
  have v: "load_u32 (load_bytes ?m 0x1000 4) = KG_ERROR_INVALID"
    by code_simp
  have h3: "load_u32 (load_bytes ?m 0x1000 4) \<noteq> KG_ERROR_OK"
    by (simp add: v KG_ERROR_OK_def KG_ERROR_INVALID_def)
  have a: "addrs (0x1000 :: addr) 4 = [0x1000, 0x1001, 0x1002, 0x1003]"
    by code_simp
  have s: "store_u32 (error ?msg) = [1, 0, 0, 0]"
    by code_simp
  note t = error_short_circuit [OF h1 h2 h3,
      of EnrollRequest_nonErrorSerializedSize EnrollRequest_nonErrorSerialize
         EnrollRequest_nonErrorDeserialize "EnrollRequest_default_ctor 0"]
  from t h1 h2 h3 show ?thesis
    unfolding v a s by blast
qed

text \<open>
  C10. On an input range that holds at least four bytes, the first four of which decode to
  an error code other than \<^verbatim>\<open>KG_ERROR_OK\<close>, \<^verbatim>\<open>Deserialize\<close> changes the object's
  error and nothing else: the user id and every field of the variant (the record's
  extension) are what they were before the call.
\<close>

theorem Deserialize_error_frame:
  assumes "unat payload + 4 \<le> unat end"
    and "load_u32 (load_bytes m payload 4) \<noteq> KG_ERROR_OK"
  shows "\<exists>e obj' rd fr.
           Deserialize nonErrorDeserialize m payload end obj = Some (e, obj', rd, fr)
         \<and> obj' = obj\<lparr>error := e\<rparr>
         \<and> user_id obj' = user_id obj
         \<and> KeyguardMessage.more obj' = KeyguardMessage.more obj"
  using assms four_bytes_in_range [of payload "end"]
  by (simp add: Deserialize_def Let_def)

theorem Deserialize_error_frame_witness:
  "unat (0x1000 :: addr) + 4 \<le> unat (0x100E :: addr)
   \<and> load_u32 (load_bytes (place 0x1000 [1, 0, 0, 0, 9, 9, 9, 9, 9, 9, 9, 9, 9, 9]) 0x1000 4)
         \<noteq> KG_ERROR_OK
   \<and> (\<exists>e obj' rd fr.
         Deserialize VerifyRequest_nonErrorDeserialize
           (place 0x1000 [1, 0, 0, 0, 9, 9, 9, 9, 9, 9, 9, 9, 9, 9]) 0x1000 0x100E
           (fst (VerifyRequest_ctor 3857 \<lparr>buffer = Some [1, 2], length_sb = 2\<rparr>
                                         \<lparr>buffer = Some [3, 4, 5], length_sb = 3\<rparr>))
           = Some (e, obj', rd, fr)
       \<and> obj' = (fst (VerifyRequest_ctor 3857 \<lparr>buffer = Some [1, 2], length_sb = 2\<rparr>
                                         \<lparr>buffer = Some [3, 4, 5], length_sb = 3\<rparr>))
                  \<lparr>error := e\<rparr>
       \<and> user_id obj' =
           user_id (fst (VerifyRequest_ctor 3857 \<lparr>buffer = Some [1, 2], length_sb = 2\<rparr>
                                         \<lparr>buffer = Some [3, 4, 5], length_sb = 3\<rparr>))
       \<and> KeyguardMessage.more obj' =
           KeyguardMessage.more
             (fst (VerifyRequest_ctor 3857 \<lparr>buffer = Some [1, 2], length_sb = 2\<rparr>
                                         \<lparr>buffer = Some [3, 4, 5], length_sb = 3\<rparr>)))"
proof -
  let ?m = "place 0x1000 [1, 0, 0, 0, 9, 9, 9, 9, 9, 9, 9, 9, 9, 9]"
  have h1: "unat (0x1000 :: addr) + 4 \<le> unat (0x100E :: addr)"
    by simp
  have v: "load_u32 (load_bytes ?m 0x1000 4) = KG_ERROR_INVALID"
    by code_simp
  have h2: "load_u32 (load_bytes ?m 0x1000 4) \<noteq> KG_ERROR_OK"
    by (simp add: v KG_ERROR_OK_def KG_ERROR_INVALID_def)
  note t = Deserialize_error_frame [OF h1 h2, of VerifyRequest_nonErrorDeserialize
      "fst (VerifyRequest_ctor 3857 \<lparr>buffer = Some [1, 2], length_sb = 2\<rparr>
                                    \<lparr>buffer = Some [3, 4, 5], length_sb = 3\<rparr>)"]
  from h1 h2 t show ?thesis
    by blast
qed

section \<open>Secret lifecycle\<close>

text \<open>
  C7. The storage of the plaintext-password fields (\<^verbatim>\<open>provided_password_\<close> of a
  verification request and of an enrollment request) is released in two places, the
  destructor and \<^verbatim>\<open>nonErrorDeserialize\<close> into the same object. In both, the array
  deleted has its first \<^verbatim>\<open>length\<close> bytes set to zero (\<open>released_wiped\<close>). The
  password handle of a verification request, the verification token and the enrolled
  password handle are deleted with their contents as they are (\<open>released_as_is\<close>).
  The wipe is defined when the length does not exceed the array (\<open>length_fits\<close>).
\<close>

theorem password_wiped_before_release:
  assumes "length_fits (VerifyRequest_provided_password vreq)"
    and "length_fits (EnrollRequest_provided_password ereq)"
  shows "VerifyRequest_dtor vreq =
           Some (released_as_is (VerifyRequest_password_handle vreq)
                 @ released_wiped (VerifyRequest_provided_password vreq))
       \<and> (\<exists>err obj rd. VerifyRequest_nonErrorDeserialize m payload end vreq =
             Some (err, obj, rd,
                   released_as_is (VerifyRequest_password_handle vreq)
                   @ released_wiped (VerifyRequest_provided_password vreq)))
       \<and> EnrollRequest_dtor ereq = Some (released_wiped (EnrollRequest_provided_password ereq))
       \<and> (\<exists>err obj rd. EnrollRequest_nonErrorDeserialize m payload end ereq =
             Some (err, obj, rd, released_wiped (EnrollRequest_provided_password ereq)))
       \<and> VerifyResponse_dtor vresp = Some (released_as_is (VerifyResponse_verification_token vresp))
       \<and> (\<exists>err obj rd. VerifyResponse_nonErrorDeserialize m payload end vresp =
             Some (err, obj, rd, released_as_is (VerifyResponse_verification_token vresp)))
       \<and> EnrollResponse_dtor eresp =
           Some (released_as_is (EnrollResponse_enrolled_password_handle eresp))
       \<and> (\<exists>err obj rd. EnrollResponse_nonErrorDeserialize m payload end eresp =
             Some (err, obj, rd, released_as_is (EnrollResponse_enrolled_password_handle eresp)))"
  using assms
    VerifyRequest_dtor_released [of vreq]
    VerifyRequest_nonErrorDeserialize_released [of vreq m payload "end"]
    EnrollRequest_dtor_released [of ereq]
    EnrollRequest_nonErrorDeserialize_released [of ereq m payload "end"]
    VerifyResponse_dtor_released [of vresp]
    VerifyResponse_nonErrorDeserialize_released [of m payload "end" vresp]
    EnrollResponse_dtor_released [of eresp]
    EnrollResponse_nonErrorDeserialize_released [of m payload "end" eresp]
  by blast

theorem password_wiped_before_release_witness:
  "length_fits \<lparr>buffer = Some [3, 4, 5], length_sb = 3\<rparr>
   \<and> length_fits \<lparr>buffer = Some [7, 8], length_sb = 2\<rparr>
   \<and> VerifyRequest_dtor
        (fst (VerifyRequest_ctor 3857 \<lparr>buffer = Some [1, 2], length_sb = 2\<rparr>
                                      \<lparr>buffer = Some [3, 4, 5], length_sb = 3\<rparr>))
       = Some [[1, 2], [0, 0, 0]]
   \<and> (\<exists>err obj rd. VerifyRequest_nonErrorDeserialize (place 0x1000 [1, 0, 0, 0, 9]) 0x1000 0x1005
        (fst (VerifyRequest_ctor 3857 \<lparr>buffer = Some [1, 2], length_sb = 2\<rparr>
                                      \<lparr>buffer = Some [3, 4, 5], length_sb = 3\<rparr>))
       = Some (err, obj, rd, [[1, 2], [0, 0, 0]]))
   \<and> EnrollRequest_dtor
        (fst (EnrollRequest_ctor 3857 \<lparr>buffer = Some [7, 8], length_sb = 2\<rparr>))
       = Some [[0, 0]]
   \<and> (\<exists>err obj rd. EnrollRequest_nonErrorDeserialize (place 0x1000 [1, 0, 0, 0, 9]) 0x1000 0x1005
        (fst (EnrollRequest_ctor 3857 \<lparr>buffer = Some [7, 8], length_sb = 2\<rparr>))
       = Some (err, obj, rd, [[0, 0]]))"
proof -
  let ?vreq = "fst (VerifyRequest_ctor 3857 \<lparr>buffer = Some [1, 2], length_sb = 2\<rparr>
                                      \<lparr>buffer = Some [3, 4, 5], length_sb = 3\<rparr>)"
  let ?ereq = "fst (EnrollRequest_ctor 3857 \<lparr>buffer = Some [7, 8], length_sb = 2\<rparr>)"
  have f1: "length_fits \<lparr>buffer = Some [3, 4, 5], length_sb = 3\<rparr>"
    by (simp add: length_fits_def)
  have f2: "length_fits \<lparr>buffer = Some [7, 8], length_sb = 2\<rparr>"
    by (simp add: length_fits_def)
  have h1: "length_fits (VerifyRequest_provided_password ?vreq)"
    using f1 by (simp add: VerifyRequest_ctor_def)
  have h2: "length_fits (EnrollRequest_provided_password ?ereq)"
    using f2 by (simp add: EnrollRequest_ctor_def)
  have r1: "released_as_is (VerifyRequest_password_handle ?vreq)
              @ released_wiped (VerifyRequest_provided_password ?vreq) = [[1, 2], [0, 0, 0]]"
    by code_simp
  have r2: "released_wiped (EnrollRequest_provided_password ?ereq) = [[0, 0]]"
    by code_simp
  note t = password_wiped_before_release [OF h1 h2,
      of "place 0x1000 [1, 0, 0, 0, 9]" "0x1000" "0x1005"]
  from t f1 f2 show ?thesis
    unfolding r1 r2 by blast
qed

section \<open>The payload of an enrollment request\<close>

text \<open>
  C5. The table of the spec gives an enrollment request with a current password handle
  and a current password a payload of three length-prefixed fields, in the order
  \<^verbatim>\<open>provided_password\<close>, \<^verbatim>\<open>current_password_handle\<close>, \<^verbatim>\<open>current_password\<close>; the caller
  in \<^verbatim>\<open>soft_keyguard_device.cpp\<close> builds the request from three buffers and the round trip
  tests expect all three back. The input range \<open>[0x1000, 0x1017)\<close> holds such a message
  for user 3857, with the one-byte fields \<open>AA\<close>, \<open>BB\<close> and \<open>CC\<close>.
  \<^verbatim>\<open>Deserialize\<close> returns \<^verbatim>\<open>KG_ERROR_OK\<close> after the first field: it reads the first 13
  of the 23 addresses, the object holds \<^verbatim>\<open>provided_password_\<close> and has no member for
  the two other fields, and serializing the object gives the first 13 bytes only.
\<close>

theorem EnrollRequest_drops_optional_fields:
  "spec_EnrollRequest_payload \<lparr>buffer = Some [0xAA], length_sb = 1\<rparr>
       (Some (\<lparr>buffer = Some [0xBB], length_sb = 1\<rparr>, \<lparr>buffer = Some [0xCC], length_sb = 1\<rparr>))
     = Some [1, 0, 0, 0, 0xAA, 1, 0, 0, 0, 0xBB, 1, 0, 0, 0, 0xCC]
   \<and> Deserialize EnrollRequest_nonErrorDeserialize
       (place 0x1000 ([0, 0, 0, 0, 17, 15, 0, 0]
                      @ [1, 0, 0, 0, 0xAA, 1, 0, 0, 0, 0xBB, 1, 0, 0, 0, 0xCC]))
       0x1000 0x1017 (EnrollRequest_default_ctor 0)
     = Some (KG_ERROR_OK,
             \<lparr>error = KG_ERROR_OK, user_id = 3857,
              EnrollRequest_provided_password = \<lparr>buffer = Some [0xAA], length_sb = 1\<rparr>\<rparr>,
             [0x1000, 0x1001, 0x1002, 0x1003, 0x1004, 0x1005, 0x1006, 0x1007,
              0x1008, 0x1009, 0x100A, 0x100B, 0x100C], [])
   \<and> Serialize EnrollRequest_nonErrorSerializedSize EnrollRequest_nonErrorSerialize
       \<lparr>error = KG_ERROR_OK, user_id = 3857,
        EnrollRequest_provided_password = \<lparr>buffer = Some [0xAA], length_sb = 1\<rparr>\<rparr>
     = Some [0, 0, 0, 0, 17, 15, 0, 0, 1, 0, 0, 0, 0xAA]
   \<and> [0, 0, 0, 0, 17, 15, 0, 0, 1, 0, 0, 0, 0xAA]
       \<noteq> [0, 0, 0, 0, 17, 15, 0, 0 :: byte]
           @ [1, 0, 0, 0, 0xAA, 1, 0, 0, 0, 0xBB, 1, 0, 0, 0, 0xCC]"
  by code_simp

section \<open>The constructors from buffers\<close>

text \<open>
  C9, as the code has it. Every constructor that takes \<^verbatim>\<open>SizedBuffer\<close> arguments moves
  each source's array into the field of the message: the source's pointer is null
  afterwards, and the field holds the array and the length the source had. The source's
  \<^verbatim>\<open>length\<close> member is not written: it keeps its value.
\<close>

theorem ctor_moves_buffer_keeps_length:
  "snd (VerifyRequest_ctor uid h p) = (h\<lparr>buffer := None\<rparr>, p\<lparr>buffer := None\<rparr>)
   \<and> VerifyRequest_password_handle (fst (VerifyRequest_ctor uid h p)) = h
   \<and> VerifyRequest_provided_password (fst (VerifyRequest_ctor uid h p)) = p
   \<and> snd (VerifyResponse_ctor uid t) = t\<lparr>buffer := None\<rparr>
   \<and> VerifyResponse_verification_token (fst (VerifyResponse_ctor uid t)) = t
   \<and> snd (EnrollRequest_ctor uid p) = p\<lparr>buffer := None\<rparr>
   \<and> EnrollRequest_provided_password (fst (EnrollRequest_ctor uid p)) = p
   \<and> snd (EnrollResponse_ctor uid h) = h\<lparr>buffer := None\<rparr>
   \<and> EnrollResponse_enrolled_password_handle (fst (EnrollResponse_ctor uid h)) = h"
  by (simp add: VerifyRequest_ctor_def VerifyResponse_ctor_def EnrollRequest_ctor_def
      EnrollResponse_ctor_def)

text \<open>
  The statement that the source is left empty fails: after the construction of an enrollment request from a
  one-byte password, the source still has length 1, so it is not in the empty state.
\<close>

theorem ctor_source_not_emptied_counterexample:
  "snd (EnrollRequest_ctor 3857 \<lparr>buffer = Some [7], length_sb = 1\<rparr>)
     = \<lparr>buffer = None, length_sb = 1\<rparr>
   \<and> snd (EnrollRequest_ctor 3857 \<lparr>buffer = Some [7], length_sb = 1\<rparr>) \<noteq> zeroed_SizedBuffer"
  by (simp add: EnrollRequest_ctor_def zeroed_SizedBuffer_def)

section \<open>Inputs on which the code and the specification part\<close>

text \<open>
  C1. An enrollment request for user 3857 with a one-byte password serializes to 13
  bytes. The input range \<open>[0x1000, 0x1005)\<close> holds the first five of them: a zero
  error code and one more byte. \<^verbatim>\<open>Deserialize\<close> checks that the cursor has not reached
  \<^verbatim>\<open>end\<close> and then reads the four bytes of the user id at \<open>0x1004\<close>: the addresses
  \<open>0x1005\<close>, \<open>0x1006\<close> and \<open>0x1007\<close> lie outside the range.
\<close>

theorem Deserialize_reads_past_end:
  "Serialize EnrollRequest_nonErrorSerializedSize EnrollRequest_nonErrorSerialize
     (fst (EnrollRequest_ctor 3857 \<lparr>buffer = Some [0xAA], length_sb = 1\<rparr>))
     = Some [0, 0, 0, 0, 17, 15, 0, 0, 1, 0, 0, 0, 0xAA]
   \<and> Deserialize EnrollRequest_nonErrorDeserialize
       (place 0x1000 (take 5 [0, 0, 0, 0, 17, 15, 0, 0, 1, 0, 0, 0, 0xAA])) 0x1000 0x1005
       (EnrollRequest_default_ctor 7)
     = Some (KG_ERROR_INVALID,
             \<lparr>error = KG_ERROR_INVALID, user_id = 17,
              EnrollRequest_provided_password = zeroed_SizedBuffer\<rparr>,
             [0x1000, 0x1001, 0x1002, 0x1003, 0x1004, 0x1005, 0x1006, 0x1007], [])
   \<and> \<not> reads_within 0x1000 0x1005
         [0x1000, 0x1001, 0x1002, 0x1003, 0x1004, 0x1005, 0x1006, 0x1007]"
  by code_simp

text \<open>
  C2. A length field of zero is refused, with exactly four bytes in the range and with
  bytes to spare, although at least four bytes remain and the end of the payload neither
  exceeds \<^verbatim>\<open>end\<close> nor wraps around.
\<close>

theorem read_from_buffer_refuses_zero_length:
  "read_from_buffer (place 0x1000 [0, 0, 0, 0]) 0x1000 0x1004 zeroed_SizedBuffer
     = (KG_ERROR_INVALID, 0x1000, zeroed_SizedBuffer, [], [])
   \<and> read_from_buffer (place 0x1000 [0, 0, 0, 0, 9]) 0x1000 0x1005 zeroed_SizedBuffer
     = (KG_ERROR_INVALID, 0x1004, zeroed_SizedBuffer, [0x1000, 0x1001, 0x1002, 0x1003], [])"
  by code_simp

text \<open>
  C3. A verification request with a one-byte password handle and an empty password
  serializes to 17 bytes. Deserializing these 17 bytes into a default-constructed
  verification request returns \<^verbatim>\<open>KG_ERROR_INVALID\<close>: the round trip fails on a field of
  size 0.
\<close>

theorem roundtrip_fails_on_empty_field:
  "Serialize VerifyRequest_nonErrorSerializedSize VerifyRequest_nonErrorSerialize
     (fst (VerifyRequest_ctor 3857 \<lparr>buffer = Some [0xAB], length_sb = 1\<rparr> zeroed_SizedBuffer))
     = Some [0, 0, 0, 0, 17, 15, 0, 0, 1, 0, 0, 0, 0xAB, 0, 0, 0, 0]
   \<and> Deserialize VerifyRequest_nonErrorDeserialize
       (place 0x1000 [0, 0, 0, 0, 17, 15, 0, 0, 1, 0, 0, 0, 0xAB, 0, 0, 0, 0]) 0x1000 0x1011
       (VerifyRequest_default_ctor 0)
     = Some (KG_ERROR_INVALID,
             \<lparr>error = KG_ERROR_INVALID, user_id = 3857,
              VerifyRequest_password_handle = \<lparr>buffer = Some [0xAB], length_sb = 1\<rparr>,
              VerifyRequest_provided_password = zeroed_SizedBuffer\<rparr>,
             [0x1000, 0x1001, 0x1002, 0x1003, 0x1004, 0x1005, 0x1006, 0x1007,
              0x1008, 0x1009, 0x100A, 0x100B, 0x100C], [])"
  by code_simp

text \<open>
  C4. An empty buffer is encoded as a four-byte zero length and no payload byte. Decoding
  exactly this encoding into an empty field returns \<^verbatim>\<open>KG_ERROR_INVALID\<close>, before any
  byte is read.
\<close>

theorem empty_buffer_encoding_refused:
  "append_to_buffer zeroed_SizedBuffer = Some [0, 0, 0, 0]
   \<and> length [0, 0, 0, 0 :: byte] = 4
   \<and> read_from_buffer (place 0x2000 [0, 0, 0, 0]) 0x2000 (0x2000 + 4) zeroed_SizedBuffer
       = (KG_ERROR_INVALID, 0x2000, zeroed_SizedBuffer, [], [])"
  by code_simp

text \<open>
  C8. The first four bytes of the input hold the word 2. \<^verbatim>\<open>Deserialize\<close> stores the
  word as the object's error and returns it: it is neither \<^verbatim>\<open>KG_ERROR_OK\<close> nor
  \<^verbatim>\<open>KG_ERROR_INVALID\<close>.
\<close>

theorem Deserialize_returns_wire_error_word:
  "Deserialize VerifyResponse_nonErrorDeserialize (place 0x1000 [2, 0, 0, 0]) 0x1000 0x1004
     (VerifyResponse_default_ctor 0)
     = Some (2, \<lparr>error = 2, user_id = 0, VerifyResponse_verification_token = zeroed_SizedBuffer\<rparr>,
             [0x1000, 0x1001, 0x1002, 0x1003], [])
   \<and> (2 :: keyguard_error_t) \<noteq> KG_ERROR_OK
   \<and> (2 :: keyguard_error_t) \<noteq> KG_ERROR_INVALID"
  by code_simp

end
